theory Spec2Isabelle
  imports Main "HOL-Library.Sublist" "HOL-Library.AList" "HOL-Library.Char_ord"
    "HOL-Library.List_Lexorder"
begin

section \<open>Python primitives used by app_manager_server.py\<close>

text \<open>
  \<^verbatim>\<open>str(n)\<close> for an integer: the decimal digits, with a leading minus sign for a
  negative number.
\<close>

definition digit_char :: "nat \<Rightarrow> char" where
  "digit_char d = ''0123456789'' ! (d mod 10)"

function str_nat :: "nat \<Rightarrow> string" where
  "str_nat n = (if n < 10 then [digit_char n] else str_nat (n div 10) @ [digit_char (n mod 10)])"
  by pat_completeness auto
termination
  by (relation "measure id") auto

declare str_nat.simps [simp del]

definition str_int :: "int \<Rightarrow> string" where
  "str_int i = (if i < 0 then CHR ''-'' # str_nat (nat (- i)) else str_nat (nat i))"

text \<open>\<^verbatim>\<open>s.startswith(p)\<close> and \<^verbatim>\<open>s.endswith(p)\<close>.\<close>

definition startswith :: "string \<Rightarrow> string \<Rightarrow> bool" where
  "startswith s p = (take (length p) s = p)"

definition endswith :: "string \<Rightarrow> string \<Rightarrow> bool" where
  "endswith s p = (length p \<le> length s \<and> drop (length s - length p) s = p)"

text \<open>\<^verbatim>\<open>sep.join(parts)\<close>.\<close>

fun join :: "string \<Rightarrow> string list \<Rightarrow> string" where
  "join sep [] = []"
| "join sep [x] = x"
| "join sep (x # y # ys) = x @ sep @ join sep (y # ys)"

text \<open>
  \<^verbatim>\<open>s.rsplit('-', 1)[0]\<close>: the part of \<open>s\<close> before its last dash, and the whole of
  \<open>s\<close> when it has none.
\<close>

definition rsplit_dash_head :: "string \<Rightarrow> string" where
  "rsplit_dash_head s =
     (if CHR ''-'' \<in> set s then rev (tl (dropWhile (\<lambda>c. c \<noteq> CHR ''-'') (rev s))) else s)"

text \<open>
  \<^verbatim>\<open>os.path.join(a, *p)\<close> of posixpath: a component that starts with a slash discards
  what came before it.
\<close>

definition path_join2 :: "string \<Rightarrow> string \<Rightarrow> string" where
  "path_join2 path b =
     (if startswith b ''/'' then b
      else if path = [] \<or> endswith path ''/'' then path @ b
      else path @ ''/'' @ b)"

definition os_path_join :: "string \<Rightarrow> string list \<Rightarrow> string" where
  "os_path_join a p = foldl path_join2 a p"

text \<open>
  \<^verbatim>\<open>int(s)\<close> for a byte string in base 10: surrounding whitespace is dropped, one sign
  is allowed, and at least one digit must follow; anything else is a ValueError
  (\<open>None\<close>).
\<close>

definition is_digit :: "char \<Rightarrow> bool" where
  "is_digit c = (c \<in> set ''0123456789'')"

definition is_space :: "char \<Rightarrow> bool" where
  "is_space c = (c \<in> {CHR '' '', CHR 0x09, CHR 0x0A, CHR 0x0B, CHR 0x0C, CHR 0x0D})"

definition digit_val :: "char \<Rightarrow> nat" where
  "digit_val c = of_char c - 48"

definition digits_val :: "string \<Rightarrow> nat" where
  "digits_val ds = foldl (\<lambda>acc c. 10 * acc + digit_val c) 0 ds"

definition strip :: "string \<Rightarrow> string" where
  "strip s = rev (dropWhile is_space (rev (dropWhile is_space s)))"

definition py_int :: "string \<Rightarrow> int option" where
  "py_int s =
     (case strip s of
        [] \<Rightarrow> None
      | c # cs \<Rightarrow>
          (let (neg, ds) = (if c = CHR ''-'' then (True, cs)
                            else if c = CHR ''+'' then (False, cs) else (False, c # cs))
           in if ds \<noteq> [] \<and> list_all is_digit ds
              then Some (if neg then - int (digits_val ds) else int (digits_val ds))
              else None))"

section \<open>Exceptions, collaborators and the state of the node\<close>

datatype error =
    BadConfigurationException string
  | HTTPError nat string
  | ProcessNotFound string
  | IOError string
  | ValueError string
  | AssertionError string
  | ConfigInaccessible
  | KeyError string
  | OSError string
  | OtherException string

datatype level = WARNING | ERROR

text \<open>
  What the module does to the world outside it, in the order it does it. Calls of
  \<^verbatim>\<open>logging.info\<close> and \<^verbatim>\<open>logging.debug\<close> are left out; warnings and errors are
  recorded with their message template and its arguments.
\<close>

datatype event =
    Log level string "string list"
  | Sleep int
  | HttpPost string string
  | AddRoutingForAppserver string string int
  | EnsureSource string string string
  | CreateConfigFile string string string int "(string \<times> string) list" int string bool
  | MonitStart string bool
  | MonitStop string
  | MonitReload
  | GetEntries
  | CleanOldRevisions "string set"
  | StartThreadAddRouting string int
  | StartThreadKillInstance string int

text \<open>
  The state of the node: the files the module itself reads, writes and removes (PID
  files, supervisor configuration files, log rotation scripts), as pairs of path and
  contents with no path twice (\<^verbatim>\<open>glob.glob\<close> lists them in this order), and the trace
  of what the module has done so far. The source trees belong to the source manager
  and are not part of it.
\<close>

record world =
  files :: "(string \<times> string) list"
  trace :: "event list"

definition emit :: "event \<Rightarrow> world \<Rightarrow> world" where
  "emit e w = w\<lparr>trace := trace w @ [e]\<rparr>"

text \<open>The tornado options defined at start-up.\<close>

record options =
  private_ip :: string
  login_ip :: string
  syslog_server :: string
  db_proxy :: string
  tq_proxy :: string

text \<open>What one attempt of \<^verbatim>\<open>opener.open(url)\<close> gives: the server's response, an
  IOError (urllib2.URLError is one), or some other exception.\<close>

record response =
  code :: nat
  headers :: string

datatype open_outcome = Responds response | RaisesIOError | RaisesOther error

text \<open>What \<^verbatim>\<open>acc.add_routing_for_appserver\<close> returns.\<close>

datatype acc_result = NOT_READY | OtherResult string

text \<open>What \<^verbatim>\<open>HTTPClient().fetch\<close> does: it returns, or raises (an HTTPError for a
  response that is not a success).\<close>

datatype fetch_result = FetchOK | FetchRaises error

section \<open>Module constants\<close>

definition START_APP_TIMEOUT :: int where "START_APP_TIMEOUT = 180"
definition BACKOFF_TIME :: int where "BACKOFF_TIME = 1"
definition FETCH_PATH :: string where "FETCH_PATH = ''/_ah/health_check''"
definition TRUSTED_APPS :: "string list" where "TRUSTED_APPS = [''appscaledashboard'']"
definition TRUSTED_FLAG :: string where "TRUSTED_FLAG = ''--trusted''"
definition PHP_CGI_LOCATION :: string where "PHP_CGI_LOCATION = ''/usr/bin/php-cgi''"
definition GO_SDK :: string where "GO_SDK = os_path_join ''/'' [''opt'', ''go_appengine'']"
definition HTTP_OK :: nat where "HTTP_OK = 200"
definition ROUTING_RETRY_INTERVAL :: int where "ROUTING_RETRY_INTERVAL = 5"

section \<open>The health probe: NoRedirection and wait_on_app\<close>

text \<open>
  \<^verbatim>\<open>NoRedirection.http_response\<close> hands every response back as it is. It takes the
  place of urllib2's HTTPErrorProcessor in the opener, so neither a redirect nor an
  error status is turned into anything else before \<open>wait_on_app\<close> sees it.
\<close>

definition NoRedirection_http_response :: "string \<Rightarrow> response \<Rightarrow> response" where
  "NoRedirection_http_response request resp = resp"

definition opener_open :: "(nat \<Rightarrow> open_outcome) \<Rightarrow> string \<Rightarrow> nat \<Rightarrow> open_outcome" where
  "opener_open outcomes url i =
     (case outcomes i of
        Responds r \<Rightarrow> Responds (NoRedirection_http_response url r)
      | RaisesIOError \<Rightarrow> RaisesIOError
      | RaisesOther e \<Rightarrow> RaisesOther e)"

text \<open>
  \<^verbatim>\<open>retries = math.ceil(START_APP_TIMEOUT / BACKOFF_TIME)\<close>: in Python 2 the division of
  two ints is the floor division, and the ceiling of an integer is itself.
\<close>

definition wait_budget :: nat where
  "wait_budget = nat (START_APP_TIMEOUT div BACKOFF_TIME)"

text \<open>The loop of \<open>wait_on_app\<close>: attempt \<open>i\<close> with \<open>retries\<close> attempts left.\<close>

fun wait_loop :: "(nat \<Rightarrow> open_outcome) \<Rightarrow> string \<Rightarrow> nat \<Rightarrow> nat \<Rightarrow> world \<Rightarrow> (error + bool) \<times> world" where
  "wait_loop outcomes url i 0 w =
     (Inr False,
      emit (Log ERROR ''Application did not come up on {} after {} seconds''
              [url, str_int START_APP_TIMEOUT]) w)"
| "wait_loop outcomes url i (Suc retries) w =
     (case opener_open outcomes url i of
        Responds r \<Rightarrow>
          (Inr True,
           if code r \<noteq> HTTP_OK
           then emit (Log WARNING ''{} returned {}. Headers: {}''
                        [url, str_nat (code r), headers r]) w
           else w)
      | RaisesIOError \<Rightarrow> wait_loop outcomes url (Suc i) retries (emit (Sleep BACKOFF_TIME) w)
      | RaisesOther e \<Rightarrow> (Inl e, w))"

definition wait_on_app :: "(nat \<Rightarrow> open_outcome) \<Rightarrow> options \<Rightarrow> int \<Rightarrow> world \<Rightarrow> (error + bool) \<times> world" where
  "wait_on_app outcomes opts port w =
     wait_loop outcomes (''http://'' @ private_ip opts @ '':'' @ str_int port @ FETCH_PATH)
       0 wait_budget w"

text \<open>
  The reading of the probe in the specification, for comparison: success is a response
  with a 2xx or 3xx status among the attempts of the budget.
\<close>

definition yields_2xx_3xx :: "open_outcome \<Rightarrow> bool" where
  "yields_2xx_3xx out =
     (case out of Responds r \<Rightarrow> 200 \<le> code r \<and> code r < 400 | _ \<Rightarrow> False)"

definition spec_wait_on_app :: "(nat \<Rightarrow> open_outcome) \<Rightarrow> bool" where
  "spec_wait_on_app outcomes = list_ex (\<lambda>i. yields_2xx_3xx (outcomes i)) [0..<wait_budget]"

text \<open>A server that answers the first probe with status 500 and is unreachable afterwards.\<close>

definition server_error_500 :: "nat \<Rightarrow> open_outcome" where
  "server_error_500 i =
     (if i = 0 then Responds \<lparr>code = 500, headers = ''[]''\<rparr> else RaisesIOError)"

definition example_options :: options where
  "example_options =
     \<lparr>private_ip = ''10.0.0.2'', login_ip = ''10.0.0.1'', syslog_server = ''10.0.0.1'',
      db_proxy = ''10.0.0.3'', tq_proxy = ''10.0.0.4''\<rparr>"

definition empty_world :: world where
  "empty_world = \<lparr>files = [], trace = []\<rparr>"

section \<open>add_routing\<close>

text \<open>
  The \<^verbatim>\<open>while True\<close> loop of \<open>add_routing\<close>: call \<open>i\<close> to the AppController. The loop
  ends only on an answer other than NOT_READY, so it is a partial function: \<open>None\<close>
  is the run that never ends.
\<close>

partial_function (option) routing_loop ::
    "(nat \<Rightarrow> acc_result) \<Rightarrow> string \<Rightarrow> string \<Rightarrow> int \<Rightarrow> nat \<Rightarrow> world \<Rightarrow> world option" where
  "routing_loop acc app ip port i w =
     (if acc i = NOT_READY
      then routing_loop acc app ip port (Suc i)
             (emit (Sleep ROUTING_RETRY_INTERVAL) (emit (AddRoutingForAppserver app ip port) w))
      else Some (emit (AddRoutingForAppserver app ip port) w))"

definition add_routing ::
    "(nat \<Rightarrow> open_outcome) \<Rightarrow> (nat \<Rightarrow> acc_result) \<Rightarrow> options \<Rightarrow> string \<Rightarrow> int \<Rightarrow> world
     \<Rightarrow> ((error + unit) \<times> world) option" where
  "add_routing outcomes acc opts app port w =
     (case wait_on_app outcomes opts port w of
        (Inl e, w1) \<Rightarrow> Some (Inl e, w1)
      | (Inr False, w1) \<Rightarrow>
          Some (Inr (), emit (Log WARNING ''AppServer did not come up in time, for {}:{}.''
                                [app, str_int port]) w1)
      | (Inr True, w1) \<Rightarrow>
          map_option (Pair (Inr ())) (routing_loop acc app (private_ip opts) port 0 w1))"

text \<open>The events of a trace that are registrations with the routing controller.\<close>

fun is_registration :: "event \<Rightarrow> bool" where
  "is_registration (AddRoutingForAppserver app ip port) = True"
| "is_registration _ = False"

definition registrations :: "world \<Rightarrow> event list" where
  "registrations w = filter is_registration (trace w)"

section \<open>unmonitor\<close>

text \<open>
  \<open>unmonitor\<close> with \<open>retries\<close> left, making the \<open>i\<close>-th POST of the request. The location
  of Monit's HTTP interface (\<^verbatim>\<open>monit_operator.LOCATION\<close>) is a parameter.
\<close>

function unmonitor ::
    "(nat \<Rightarrow> fetch_result) \<Rightarrow> string \<Rightarrow> string \<Rightarrow> int \<Rightarrow> nat \<Rightarrow> world \<Rightarrow> (error + unit) \<times> world" where
  "unmonitor fetch location process_name retries i w =
     (case fetch i of
        FetchOK \<Rightarrow> (Inr (), emit (HttpPost (location @ ''/'' @ process_name) ''action=unmonitor'') w)
      | FetchRaises e \<Rightarrow>
          (case e of
             HTTPError c msg \<Rightarrow>
               if c = 404
               then (Inl (ProcessNotFound (process_name @ '' not listed by Monit'')),
                     emit (HttpPost (location @ ''/'' @ process_name) ''action=unmonitor'') w)
               else if c = 503
               then (if retries - 1 < 0
                     then (Inl e, emit (HttpPost (location @ ''/'' @ process_name) ''action=unmonitor'') w)
                     else unmonitor fetch location process_name (retries - 1) (Suc i)
                            (emit (HttpPost (location @ ''/'' @ process_name) ''action=unmonitor'') w))
               else (Inl e, emit (HttpPost (location @ ''/'' @ process_name) ''action=unmonitor'') w)
           | _ \<Rightarrow> (Inl e, emit (HttpPost (location @ ''/'' @ process_name) ''action=unmonitor'') w)))"
  by pat_completeness auto
termination
  by (relation "measure (\<lambda>(fetch, location, process_name, retries, i, w). nat retries)") auto

declare unmonitor.simps [simp del]

text \<open>The default of the source: \<^verbatim>\<open>retries=5\<close>.\<close>

definition unmonitor_default :: "(nat \<Rightarrow> fetch_result) \<Rightarrow> string \<Rightarrow> string \<Rightarrow> world \<Rightarrow> (error + unit) \<times> world" where
  "unmonitor_default fetch location process_name w = unmonitor fetch location process_name 5 0 w"

fun is_post :: "event \<Rightarrow> bool" where
  "is_post (HttpPost url body) = True"
| "is_post _ = False"

definition posts :: "world \<Rightarrow> nat" where
  "posts w = length (filter is_post (trace w))"

text \<open>Monit busy four times, then done; and Monit busy for ever.\<close>

definition busy_four_times :: "nat \<Rightarrow> fetch_result" where
  "busy_four_times i = (if i < 4 then FetchRaises (HTTPError 503 ''Service Unavailable'') else FetchOK)"

definition always_busy :: "nat \<Rightarrow> fetch_result" where
  "always_busy i = FetchRaises (HTTPError 503 ''Service Unavailable'')"

section \<open>Constants and collaborators from other modules\<close>

text \<open>
  Modelled from the spec: \<^verbatim>\<open>MONIT_INSTANCE_PREFIX\<close> comes from
  \<^verbatim>\<open>appscale.admin.instance_manager.constants\<close>, which is not part of the sources. The
  specification gives the supervisor entry name as \<^verbatim>\<open>app___<projectId>-<port>\<close>, and
  \<^verbatim>\<open>PIDFILE_TEMPLATE\<close> of this module agrees with it.
\<close>

definition MONIT_INSTANCE_PREFIX :: string where
  "MONIT_INSTANCE_PREFIX = ''app___''"

text \<open>
  Modelled from the spec: \<^verbatim>\<open>HTTPCodes\<close> and the runtime names of
  \<^verbatim>\<open>appscale.common.constants\<close> are not part of the sources. The specification gives
  400 for configuration errors, 500 for internal errors, and the runtimes python27, go,
  php and java.
\<close>

definition BAD_REQUEST :: nat where "BAD_REQUEST = 400"
definition INTERNAL_ERROR :: nat where "INTERNAL_ERROR = 500"
definition PYTHON27 :: string where "PYTHON27 = ''python27''"
definition GO :: string where "GO = ''go''"
definition PHP :: string where "PHP = ''php''"
definition JAVA :: string where "JAVA = ''java''"

text \<open>
  Modelled from the spec: \<^verbatim>\<open>misc.is_app_name_valid\<close> of \<^verbatim>\<open>appscale.common\<close> is not part
  of the sources. The specification validates a project identifier against the pattern
  \<^verbatim>\<open>[a-z0-9-]+\<close>.
\<close>

definition is_app_name_valid :: "string \<Rightarrow> bool" where
  "is_app_name_valid app_name =
     (app_name \<noteq> [] \<and> list_all (\<lambda>ch. ch \<in> set ''abcdefghijklmnopqrstuvwxyz0123456789-'') app_name)"

text \<open>The other constants the module imports; their values are parameters.\<close>

record constants =
  UNPACK_ROOT :: string
  VERSION_PATH_SEPARATOR :: string
  APP_LOG_SIZE :: int
  DASHBOARD_LOG_SIZE :: int
  DASHBOARD_PROJECT_ID :: string
  DEFAULT_MAX_MEMORY :: int
  INSTANCE_CLASSES :: "(string \<times> int) list"
  LOGROTATE_CONFIG_DIR :: string
  MONIT_CONFIG_DIR :: string
  MONIT_LOCATION :: string
  APPSCALE_HOME :: string
  UA_SERVER_PORT :: int
  DB_SERVER_PORT :: int
  PID_DIR :: string
  JAVA_APPSERVER :: string

text \<open>A version's details, as the projects manager holds them.\<close>

record version_details =
  runtime :: string
  revision :: int
  sourceUrl :: string
  instanceClass :: "string option"

text \<open>An element of a parsed XML document.\<close>

datatype element = Element (tag: string) (attrib: "(string \<times> string) list") (children: "element list")

text \<open>
  What the collaborators answer during one operation: the projects manager
  (project, service, version), the deployment configuration (\<open>None\<close>: ConfigInaccessible
  is raised), the source manager, Monit, the file system (paths whose removal or
  opening for writing fails, the directory walk, the XML parser) and the helper
  \<^verbatim>\<open>find_web_inf\<close>.
\<close>

record env =
  projects_manager :: "(string \<times> (string \<times> (string \<times> version_details) list) list) list"
  runtime_params :: "(string \<times> int) list option"
  gcs :: "(string \<times> string) list option"
  ensure_source_raises :: "error option"
  monit_start :: bool
  monit_stop :: bool
  monit_entries :: "string list"
  unmonitor_fetch :: "nat \<Rightarrow> fetch_result"
  undeletable :: "string set"
  unwritable :: "string set"
  walk :: "string \<Rightarrow> (string \<times> string list) list"
  parse_xml :: "string \<Rightarrow> error + element"
  find_web_inf :: "string \<Rightarrow> error + string"
  num_cpus :: nat

section \<open>Files\<close>

text \<open>\<^verbatim>\<open>os.remove(path)\<close>: an OSError when the file is not there or cannot be removed.\<close>

definition os_remove :: "env \<Rightarrow> string \<Rightarrow> world \<Rightarrow> (error + unit) \<times> world" where
  "os_remove e path w =
     (if path \<in> fst ` set (files w) \<and> path \<notin> undeletable e
      then (Inr (), w\<lparr>files := AList.delete path (files w)\<rparr>)
      else (Inl (OSError path), w))"

text \<open>\<^verbatim>\<open>open(path, 'w')\<close> followed by one write: an IOError when the file cannot be opened.\<close>

definition write_file :: "env \<Rightarrow> string \<Rightarrow> string \<Rightarrow> world \<Rightarrow> (error + unit) \<times> world" where
  "write_file e path contents w =
     (if path \<in> unwritable e then (Inl (IOError path), w)
      else (Inr (), w\<lparr>files := AList.update path contents (files w)\<rparr>))"

definition exists_file :: "world \<Rightarrow> string \<Rightarrow> bool" where
  "exists_file w path = (path \<in> fst ` set (files w))"

section \<open>Log rotation\<close>

definition logrotate_contents :: "string \<Rightarrow> int \<Rightarrow> string" where
  "logrotate_contents watch log_size =
     ''/var/log/appscale/'' @ watch @ ''*.log {'' @ [CHR 0x0A]
     @ ''  size '' @ str_int log_size @ [CHR 0x0A]
     @ ''  missingok'' @ [CHR 0x0A]
     @ ''  rotate 7'' @ [CHR 0x0A]
     @ ''  compress'' @ [CHR 0x0A]
     @ ''  delaycompress'' @ [CHR 0x0A]
     @ ''  notifempty'' @ [CHR 0x0A]
     @ ''  copytruncate'' @ [CHR 0x0A]
     @ ''}'' @ [CHR 0x0A]"

text \<open>
  \<open>setup_logrotate\<close> opens and writes the script with no handler around it: an IOError
  leaves the function as an exception, and the only value it ever returns is True.
\<close>

definition setup_logrotate :: "constants \<Rightarrow> env \<Rightarrow> string \<Rightarrow> string \<Rightarrow> int \<Rightarrow> world \<Rightarrow> (error + bool) \<times> world" where
  "setup_logrotate c e app_name watch log_size w =
     (case write_file e (LOGROTATE_CONFIG_DIR c @ ''/appscale-'' @ app_name)
             (logrotate_contents watch log_size) w of
        (Inl err, w1) \<Rightarrow> (Inl err, w1)
      | (Inr u, w1) \<Rightarrow> (Inr True, w1))"

definition remove_logrotate :: "constants \<Rightarrow> env \<Rightarrow> string \<Rightarrow> world \<Rightarrow> bool \<times> world" where
  "remove_logrotate c e app_name w =
     (case os_remove e (LOGROTATE_CONFIG_DIR c @ ''/appscale-'' @ app_name) w of
        (Inl err, w1) \<Rightarrow>
          (False, emit (Log ERROR ''Error deleting {0}''
                          [LOGROTATE_CONFIG_DIR c @ ''/appscale-'' @ app_name]) w1)
      | (Inr u, w1) \<Rightarrow> (True, w1))"

section \<open>clean_old_sources\<close>

text \<open>The set comprehension over the Monit entries.\<close>

definition entry_revisions :: "string list \<Rightarrow> string set" where
  "entry_revisions entries =
     set (map (\<lambda>entry. rsplit_dash_head (drop (length MONIT_INSTANCE_PREFIX) entry))
            (filter (\<lambda>entry. startswith entry MONIT_INSTANCE_PREFIX) entries))"

text \<open>The three nested loops over the projects manager.\<close>

definition manager_revisions ::
    "constants \<Rightarrow> (string \<times> (string \<times> (string \<times> version_details) list) list) list \<Rightarrow> string list" where
  "manager_revisions c pm =
     concat (map (\<lambda>(project_id, project_manager).
       concat (map (\<lambda>(service_id, service_manager).
         map (\<lambda>(version_id, version_manager).
                join (VERSION_PATH_SEPARATOR c)
                  [project_id, service_id, version_id, str_int (revision version_manager)])
             service_manager)
         project_manager))
       pm)"

definition active_revisions :: "constants \<Rightarrow> env \<Rightarrow> string set" where
  "active_revisions c e = entry_revisions (monit_entries e) \<union> set (manager_revisions c (projects_manager e))"

definition clean_old_sources :: "constants \<Rightarrow> env \<Rightarrow> world \<Rightarrow> world" where
  "clean_old_sources c e w = emit (CleanOldRevisions (active_revisions c e)) (emit GetEntries w)"

section \<open>Stopping instances\<close>

text \<open>
  \<open>stop_app_instance\<close>. The early \<^verbatim>\<open>raise gen.Return()\<close> on ProcessNotFound ends the
  coroutine with success before anything is removed.
\<close>

definition stop_app_instance :: "constants \<Rightarrow> env \<Rightarrow> string \<Rightarrow> int \<Rightarrow> world \<Rightarrow> (error + unit) \<times> world" where
  "stop_app_instance c e app_name port w =
     (if \<not> is_app_name_valid app_name
      then (Inl (BadConfigurationException (''Invalid project ID: '' @ app_name)), w)
      else
        let watch = MONIT_INSTANCE_PREFIX @ app_name @ ''-'' @ str_int port;
            pid_location = os_path_join (PID_DIR c) [watch @ ''.pid'']
        in case map_of (files w) pid_location of
             None \<Rightarrow> (Inl (HTTPError INTERNAL_ERROR (pid_location @ '' does not exist'')), w)
           | Some text \<Rightarrow>
               (case py_int (strip text) of
                  None \<Rightarrow> (Inl (ValueError text), w)
                | Some instance_pid \<Rightarrow>
                    (case unmonitor_default (unmonitor_fetch e) (MONIT_LOCATION c) watch w of
                       (Inl err, w1) \<Rightarrow>
                         (case err of
                            ProcessNotFound msg \<Rightarrow> (Inr (), w1)
                          | _ \<Rightarrow> (Inl err, w1))
                     | (Inr u, w1) \<Rightarrow>
                         let monit_config_file = MONIT_CONFIG_DIR c @ ''/appscale-'' @ watch @ ''.cfg'';
                             w2 = (case os_remove e monit_config_file w1 of
                                     (Inl err, w') \<Rightarrow> emit (Log ERROR ''Error deleting {0}'' [monit_config_file]) w'
                                   | (Inr u', w') \<Rightarrow> w');
                             w3 = emit MonitReload w2;
                             w4 = clean_old_sources c e w3
                         in (Inr (), emit (StartThreadKillInstance watch instance_pid) w4))))"

text \<open>
  \<^verbatim>\<open>glob.glob(dir/appscale-<watch>-*.cfg)\<close>: the star stands for any run of characters
  without a slash.
\<close>

definition glob_configs :: "string \<Rightarrow> string \<Rightarrow> world \<Rightarrow> string list" where
  "glob_configs dir watch w =
     filter (\<lambda>path.
        startswith path (dir @ ''/appscale-'' @ watch @ ''-'')
        \<and> endswith path ''.cfg''
        \<and> length (dir @ ''/appscale-'' @ watch @ ''-'') + length ''.cfg'' \<le> length path
        \<and> CHR ''/'' \<notin> set (drop (length (dir @ ''/appscale-'' @ watch @ ''-'')) path))
       (map fst (files w))"

text \<open>The loop of \<open>stop_app\<close> over the configuration files.\<close>

fun remove_configs :: "env \<Rightarrow> string list \<Rightarrow> world \<Rightarrow> world" where
  "remove_configs e [] w = w"
| "remove_configs e (config_file # rest) w =
     (case os_remove e config_file w of
        (Inl err, w1) \<Rightarrow> remove_configs e rest (emit (Log ERROR ''Error removing {}'' [config_file]) w1)
      | (Inr u, w1) \<Rightarrow> remove_configs e rest w1)"

definition stop_app :: "constants \<Rightarrow> env \<Rightarrow> string \<Rightarrow> world \<Rightarrow> (error + unit) \<times> world" where
  "stop_app c e app_name w =
     (if \<not> is_app_name_valid app_name
      then (Inl (BadConfigurationException (''Invalid project ID: '' @ app_name)), w)
      else
        let watch = MONIT_INSTANCE_PREFIX @ app_name;
            w1 = emit (MonitStop watch) w
        in if \<not> monit_stop e
           then (Inl (HTTPError INTERNAL_ERROR (''Unable to stop '' @ watch)), w1)
           else
             let w2 = remove_configs e (glob_configs (MONIT_CONFIG_DIR c) watch w1) w1;
                 (removed, w3) = remove_logrotate c e app_name w2;
                 w4 = (if \<not> removed
                       then emit (Log ERROR ''Error while setting up log rotation for application: {}''
                                    [app_name]) w3
                       else w3)
             in (Inr (), clean_old_sources c e w4))"

section \<open>Start commands and environments\<close>

definition python27_cmd :: "constants \<Rightarrow> options \<Rightarrow> string \<Rightarrow> int \<Rightarrow> string \<Rightarrow> string \<Rightarrow> string list" where
  "python27_cmd c opts login_ip' port pidfile revision_key =
     [''/usr/bin/python2'',
      APPSCALE_HOME c @ ''/AppServer/dev_appserver.py'',
      ''--port '' @ str_int port,
      ''--admin_port '' @ str_int (port + 10000),
      ''--login_server '' @ login_ip',
      ''--skip_sdk_update_check'',
      ''--nginx_host '' @ login_ip',
      ''--require_indexes'',
      ''--enable_sendmail'',
      ''--xmpp_path '' @ login_ip',
      ''--php_executable_path='' @ PHP_CGI_LOCATION,
      ''--uaserver_path '' @ db_proxy opts @ '':'' @ str_int (UA_SERVER_PORT c),
      ''--datastore_path '' @ db_proxy opts @ '':'' @ str_int (DB_SERVER_PORT c),
      os_path_join (UNPACK_ROOT c) [revision_key, ''app''],
      ''--host '' @ private_ip opts,
      ''--admin_host '' @ private_ip opts,
      ''--automatic_restart'', ''no'',
      ''--pidfile'', pidfile]"

definition create_python27_start_cmd ::
    "constants \<Rightarrow> options \<Rightarrow> string \<Rightarrow> string \<Rightarrow> int \<Rightarrow> string \<Rightarrow> string \<Rightarrow> string" where
  "create_python27_start_cmd c opts app_name login_ip' port pidfile revision_key =
     join '' '' (python27_cmd c opts login_ip' port pidfile revision_key
                 @ (if app_name \<in> set TRUSTED_APPS then [TRUSTED_FLAG] else []))"

definition create_python_app_env :: "constants \<Rightarrow> env \<Rightarrow> string \<Rightarrow> string \<Rightarrow> (string \<times> string) list" where
  "create_python_app_env c e public_ip app_name =
     [(''MY_IP_ADDRESS'', public_ip),
      (''APPNAME'', app_name),
      (''GOMAXPROCS'', str_nat (num_cpus e)),
      (''APPSCALE_HOME'', APPSCALE_HOME c),
      (''PYTHON_LIB'', APPSCALE_HOME c @ ''/AppServer/'')]"

text \<open>
  \<open>find_web_xml\<close>: the candidates of the directory walk, then the shortest of them, the
  first in sorted order among those of the same length.
\<close>

definition find_web_xml :: "env \<Rightarrow> string \<Rightarrow> error + string" where
  "find_web_xml e app_name =
     (let matches = map (\<lambda>(root, fs). os_path_join root [''appengine-web.xml''])
                      (filter (\<lambda>(root, fs). ''appengine-web.xml'' \<in> set fs \<and> endswith root ''/WEB-INF'')
                         (walk e (''/var/apps/'' @ app_name @ ''/app'')))
      in if length matches < 1
         then Inl (BadConfigurationException
                     (''Unable to find appengine-web.xml file for '' @ app_name))
         else if length matches > 1
         then Inr (foldl (\<lambda>match_to_use match.
                            if length match < length match_to_use then match else match_to_use)
                     (hd (sort matches)) (sort matches))
         else Inr (hd matches))"

text \<open>
  \<open>extract_env_vars_from_xml\<close>: the inner loop over the children of one
  \<^verbatim>\<open>env-variables\<close> element, and the outer loop over the children of the root. In
  \<^verbatim>\<open>custom_vars[var_dict['name']] = var_dict['value']\<close> the value is looked up first.
\<close>

fun add_env_vars :: "element list \<Rightarrow> (string \<times> string) list \<Rightarrow> error + (string \<times> string) list" where
  "add_env_vars [] custom_vars = Inr custom_vars"
| "add_env_vars (env_var # rest) custom_vars =
     (case map_of (attrib env_var) ''value'' of
        None \<Rightarrow> Inl (KeyError ''value'')
      | Some v \<Rightarrow>
          (case map_of (attrib env_var) ''name'' of
             None \<Rightarrow> Inl (KeyError ''name'')
           | Some k \<Rightarrow> add_env_vars rest (AList.update k v custom_vars)))"

fun scan_children :: "element list \<Rightarrow> (string \<times> string) list \<Rightarrow> error + (string \<times> string) list" where
  "scan_children [] custom_vars = Inr custom_vars"
| "scan_children (child # rest) custom_vars =
     (if \<not> endswith (tag child) ''env-variables'' then scan_children rest custom_vars
      else (case add_env_vars (children child) custom_vars of
              Inl err \<Rightarrow> Inl err
            | Inr custom_vars' \<Rightarrow> scan_children rest custom_vars'))"

definition extract_env_vars_from_xml :: "env \<Rightarrow> string \<Rightarrow> error + (string \<times> string) list" where
  "extract_env_vars_from_xml e xml_file =
     (case parse_xml e xml_file of
        Inl err \<Rightarrow> Inl err
      | Inr root \<Rightarrow> scan_children (children root) [])"

text \<open>
  \<open>create_java_app_env\<close>. A dictionary is a list of pairs with no key twice;
  \<^verbatim>\<open>d.update(other)\<close> is \<open>AList.merge d other\<close>.
\<close>

definition gcs_host :: "(string \<times> string) list \<Rightarrow> string option" where
  "gcs_host gcs_config =
     (case (map_of gcs_config ''scheme'', map_of gcs_config ''host'', map_of gcs_config ''port'') of
        (Some scheme, Some host, Some port) \<Rightarrow> Some (scheme @ ''://'' @ host @ '':'' @ port)
      | _ \<Rightarrow> None)"

definition create_java_app_env :: "constants \<Rightarrow> env \<Rightarrow> string \<Rightarrow> world \<Rightarrow> (error + (string \<times> string) list) \<times> world" where
  "create_java_app_env c e app_name w =
     (case find_web_xml e app_name of
        Inl err \<Rightarrow> (Inl err, w)
      | Inr config_file \<Rightarrow>
          (case extract_env_vars_from_xml e config_file of
             Inl err \<Rightarrow> (Inl err, w)
           | Inr custom_env_vars \<Rightarrow>
               let env_vars = AList.merge [(''APPSCALE_HOME'', APPSCALE_HOME c)] custom_env_vars;
                   (gcs_config, w1) =
                     (case gcs e of
                        None \<Rightarrow> ([(''scheme'', ''https''), (''port'', ''443'')],
                                  emit (Log WARNING ''Unable to fetch GCS configuration.'' []) w)
                      | Some g \<Rightarrow> (AList.merge [(''scheme'', ''https''), (''port'', ''443'')] g, w))
               in (Inr (case gcs_host gcs_config of
                          Some url \<Rightarrow> AList.update ''GCS_HOST'' url env_vars
                        | None \<Rightarrow> env_vars), w1)))"

text \<open>\<^verbatim>\<open>os.path.dirname(p)\<close> of posixpath.\<close>

definition os_path_dirname :: "string \<Rightarrow> string" where
  "os_path_dirname p =
     (let head = rev (dropWhile (\<lambda>ch. ch \<noteq> CHR ''/'') (rev p))
      in if head \<noteq> [] \<and> head \<noteq> replicate (length head) (CHR ''/'')
         then rev (dropWhile (\<lambda>ch. ch = CHR ''/'') (rev head))
         else head)"

definition create_java_start_cmd ::
    "constants \<Rightarrow> options \<Rightarrow> env \<Rightarrow> string \<Rightarrow> int \<Rightarrow> string \<Rightarrow> int \<Rightarrow> string \<Rightarrow> string \<Rightarrow> error + string" where
  "create_java_start_cmd c opts e app_name port load_balancer_host max_heap pidfile revision_key =
     (case find_web_inf e (os_path_join (UNPACK_ROOT c) [revision_key]) of
        Inl err \<Rightarrow> Inl err
      | Inr web_inf_directory \<Rightarrow>
          Inr (join '' ''
            [os_path_join (JAVA_APPSERVER c) [''appengine-java-sdk-repacked'', ''bin'', ''dev_appserver.sh''],
             ''--port='' @ str_int port,
             ''--jvm_flag=-Dsocket.permit_connect=true'',
             ''--jvm_flag=-Xmx'' @ str_int max_heap @ ''m'',
             ''--jvm_flag=-Djava.security.egd=file:/dev/./urandom'',
             ''--disable_update_check'',
             ''--address='' @ private_ip opts,
             ''--datastore_path='' @ db_proxy opts,
             ''--login_server='' @ load_balancer_host,
             ''--appscale_version=1'',
             ''--APP_NAME='' @ app_name,
             ''--NGINX_ADDRESS='' @ load_balancer_host,
             ''--TQ_PROXY='' @ tq_proxy opts,
             ''--pidfile='' @ pidfile,
             os_path_dirname web_inf_directory]))"

section \<open>Starting an instance\<close>

text \<open>
  Modelled from the spec: \<^verbatim>\<open>monit_app_configuration.create_config_file\<close> is not part of
  the sources. The specification has it write the supervisor's configuration file at
  \<^verbatim>\<open>SUPERVISOR_CONF_DIR/appscale-<entryName>.cfg\<close>, where the entry name is the watch
  followed by a dash and the port. What the file holds is not given; the model keeps
  the start command there.
\<close>

definition create_config_file ::
    "constants \<Rightarrow> string \<Rightarrow> string \<Rightarrow> string \<Rightarrow> int \<Rightarrow> (string \<times> string) list \<Rightarrow> int \<Rightarrow> string \<Rightarrow> bool
     \<Rightarrow> world \<Rightarrow> world" where
  "create_config_file c watch start_cmd pidfile port env_vars' max_memory syslog check_port w =
     emit (CreateConfigFile watch start_cmd pidfile port env_vars' max_memory syslog check_port)
       (w\<lparr>files := AList.update
            (MONIT_CONFIG_DIR c @ ''/appscale-'' @ watch @ ''-'' @ str_int port @ ''.cfg'')
            start_cmd (files w)\<rparr>)"

text \<open>The JSON body of a start request; a key that is absent is \<open>None\<close>.\<close>

record start_config =
  app_port :: "int option"
  service_id :: "string option"
  version_id :: "string option"
  env_vars :: "(string \<times> string) list option"

definition lookup_version ::
    "(string \<times> (string \<times> (string \<times> version_details) list) list) list \<Rightarrow> string \<Rightarrow> string \<Rightarrow> string
     \<Rightarrow> version_details option" where
  "lookup_version pm project service version =
     (case map_of pm project of
        None \<Rightarrow> None
      | Some project_manager \<Rightarrow>
          (case map_of project_manager service of
             None \<Rightarrow> None
           | Some service_manager \<Rightarrow> map_of service_manager version))"

text \<open>\<^verbatim>\<open>PIDFILE_TEMPLATE.format(project=..., port=...)\<close>.\<close>

definition pidfile_of :: "string \<Rightarrow> int \<Rightarrow> string" where
  "pidfile_of project port =
     os_path_join ''/'' [''var'', ''run'', ''appscale'', ''app___'']
     @ project @ ''-'' @ str_int port @ ''.pid''"

text \<open>
  The memory limit of \<open>start_app\<close>: \<^verbatim>\<open>runtime_params.get('max_memory', DEFAULT_MAX_MEMORY)\<close>,
  replaced by the limit of the version's instance class when it has one that
  \<^verbatim>\<open>INSTANCE_CLASSES\<close> knows.
\<close>

definition max_memory_for :: "constants \<Rightarrow> (string \<times> int) list \<Rightarrow> version_details \<Rightarrow> int" where
  "max_memory_for c params details =
     (let max_memory = (case map_of params ''max_memory'' of
                          None \<Rightarrow> DEFAULT_MAX_MEMORY c | Some m \<Rightarrow> m)
      in case instanceClass details of
           None \<Rightarrow> max_memory
         | Some cls \<Rightarrow> (case map_of (INSTANCE_CLASSES c) cls of
                          None \<Rightarrow> max_memory | Some m \<Rightarrow> m))"

text \<open>
  The branch of \<open>start_app\<close> on the runtime: the start command and the environment for
  python27, go and php, for java after the check of the heap size, and the error for
  any other runtime.
\<close>

definition start_cmd_and_env ::
    "constants \<Rightarrow> options \<Rightarrow> env \<Rightarrow> string \<Rightarrow> int \<Rightarrow> string \<Rightarrow> int \<Rightarrow> string \<Rightarrow> string
     \<Rightarrow> (string \<times> string) list \<Rightarrow> world \<Rightarrow> (error + string \<times> (string \<times> string) list) \<times> world" where
  "start_cmd_and_env c opts e project_id port runtime' max_memory pidfile revision_key env_vars' w =
     (if runtime' \<in> {PYTHON27, GO, PHP}
      then (Inr (create_python27_start_cmd c opts project_id (login_ip opts) port pidfile revision_key,
                 AList.merge env_vars' (create_python_app_env c e (login_ip opts) project_id)), w)
      else if runtime' = JAVA
      then (if max_memory - 250 \<le> 0
            then (Inl (BadConfigurationException
                         ''Memory for Java applications must be greater than 250MB''), w)
            else (case create_java_start_cmd c opts e project_id port (login_ip opts)
                         (max_memory - 250) pidfile revision_key of
                    Inl err \<Rightarrow> (Inl err, w)
                  | Inr start_cmd \<Rightarrow>
                      (case create_java_app_env c e project_id w of
                         (Inl err, w1) \<Rightarrow> (Inl err, w1)
                       | (Inr java_env, w1) \<Rightarrow> (Inr (start_cmd, AList.merge env_vars' java_env), w1))))
      else (Inl (BadConfigurationException
                   (''Unknown runtime '' @ runtime' @ '' for '' @ project_id)), w))"

definition start_app :: "constants \<Rightarrow> options \<Rightarrow> env \<Rightarrow> string \<Rightarrow> start_config \<Rightarrow> world \<Rightarrow> (error + unit) \<times> world" where
  "start_app c opts e project_id config w =
     (case app_port config of
        None \<Rightarrow> (Inl (BadConfigurationException ''Missing parameter: app_port''), w)
      | Some port \<Rightarrow>
     (case service_id config of
        None \<Rightarrow> (Inl (BadConfigurationException ''Missing parameter: service_id''), w)
      | Some service \<Rightarrow>
     (case version_id config of
        None \<Rightarrow> (Inl (BadConfigurationException ''Missing parameter: version_id''), w)
      | Some version \<Rightarrow>
     (case env_vars config of
        None \<Rightarrow> (Inl (BadConfigurationException ''Missing parameter: env_vars''), w)
      | Some env_vars0 \<Rightarrow>
     (if \<not> is_app_name_valid project_id
      then (Inl (BadConfigurationException (''Invalid project ID: '' @ project_id)), w)
      else
     (case lookup_version (projects_manager e) project_id service version of
        None \<Rightarrow> (Inl (BadConfigurationException ''Version not found''), w)
      | Some details \<Rightarrow>
     (case runtime_params e of
        None \<Rightarrow> (Inl ConfigInaccessible, w)
      | Some params \<Rightarrow>
          let max_memory = max_memory_for c params details;
              revision_key = join (VERSION_PATH_SEPARATOR c)
                               [project_id, service, version, str_int (revision details)];
              w1 = emit (EnsureSource revision_key (sourceUrl details) (runtime details)) w
          in (case ensure_source_raises e of
                Some err \<Rightarrow> (Inl err, w1)
              | None \<Rightarrow>
                  let pidfile = pidfile_of project_id port;
                      env_vars1 = (if runtime details = GO
                                   then AList.update ''GOROOT'' (os_path_join GO_SDK [''goroot''])
                                          (AList.update ''GOPATH''
                                             (os_path_join (UNPACK_ROOT c) [revision_key, ''gopath''])
                                             env_vars0)
                                   else env_vars0);
                      watch = MONIT_INSTANCE_PREFIX @ project_id
                  in (case start_cmd_and_env c opts e project_id port (runtime details) max_memory
                             pidfile revision_key env_vars1 w1 of
                        (Inl err, w2) \<Rightarrow> (Inl err, w2)
                      | (Inr (start_cmd, env_vars2), w2) \<Rightarrow>
                          let w3 = create_config_file c watch start_cmd pidfile port env_vars2
                                     max_memory (syslog_server opts) True w2;
                              full_watch = watch @ ''-'' @ str_int port;
                              w4 = emit (MonitStart full_watch False) w3
                          in if \<not> monit_start e
                             then (Inl (AssertionError (''Monit was unable to start '' @ project_id
                                                         @ '':'' @ str_int port)), w4)
                             else
                               let w5 = emit (StartThreadAddRouting project_id port) w4;
                                   log_size = (if project_id = DASHBOARD_PROJECT_ID c
                                               then DASHBOARD_LOG_SIZE c else APP_LOG_SIZE c)
                               in (case setup_logrotate c e project_id watch log_size w5 of
                                     (Inl err, w6) \<Rightarrow> (Inl err, w6)
                                   | (Inr written, w6) \<Rightarrow>
                                       (Inr (),
                                        if \<not> written
                                        then emit (Log ERROR
                                                     ''Error while setting up log rotation for application: {}''
                                                     [project_id]) w6
                                        else w6)))))))))))"

section \<open>The request handlers\<close>

text \<open>
  Each handler turns a BadConfigurationException into an HTTPError with the code
  \<^verbatim>\<open>HTTPCodes.BAD_REQUEST\<close> and lets every other exception through. The body of a
  POST is given decoded; \<open>None\<close> is a body that is not JSON.
\<close>

definition as_bad_request :: "(error + unit) \<times> world \<Rightarrow> (error + unit) \<times> world" where
  "as_bad_request r =
     (case r of
        (Inl err, w) \<Rightarrow>
          (case err of
             BadConfigurationException message \<Rightarrow> (Inl (HTTPError BAD_REQUEST message), w)
           | _ \<Rightarrow> (Inl err, w))
      | (Inr u, w) \<Rightarrow> (Inr u, w))"

definition AppHandler_post ::
    "constants \<Rightarrow> options \<Rightarrow> env \<Rightarrow> string \<Rightarrow> start_config option \<Rightarrow> world \<Rightarrow> (error + unit) \<times> world" where
  "AppHandler_post c opts e project_id body w =
     (case body of
        None \<Rightarrow> (Inl (HTTPError BAD_REQUEST ''Payload must be valid JSON''), w)
      | Some config \<Rightarrow> as_bad_request (start_app c opts e project_id config w))"



section \<open>Observations on traces and example inputs\<close>

text \<open>
  What follows is used to state the properties: functions that read a trace or a
  document, the readings of the specification that are compared with the code, and
  the concrete inputs of the examples.
\<close>

subsection \<open>Probes and controllers\<close>

definition up_on_second_probe :: "nat \<Rightarrow> open_outcome" where
  "up_on_second_probe i = (if i = 0 then RaisesIOError else Responds \<lparr>code = 200, headers = ''[]''\<rparr>)"

definition never_up :: "nat \<Rightarrow> open_outcome" where
  "never_up i = RaisesIOError"

definition never_ready :: "nat \<Rightarrow> acc_result" where
  "never_ready i = NOT_READY"

definition ready_on_third_call :: "nat \<Rightarrow> acc_result" where
  "ready_on_third_call i = (if i < 2 then NOT_READY else OtherResult ''true'')"

subsection \<open>Answers of Monit\<close>

text \<open>An answer of 503, and the exception an answer raises.\<close>

fun is_busy :: "fetch_result \<Rightarrow> bool" where
  "is_busy (FetchRaises (HTTPError c msg)) = (c = 503)"
| "is_busy _ = False"

fun raised :: "fetch_result \<Rightarrow> error" where
  "raised (FetchRaises e) = e"
| "raised FetchOK = OtherException []"

subsection \<open>A node\<close>

text \<open>
  Values for the imported constants, and a node on which Monit lists one instance of
  revision 1 while the projects manager is at revision 2.
\<close>

definition example_constants :: constants where
  "example_constants =
     \<lparr>UNPACK_ROOT = ''/var/apps'', VERSION_PATH_SEPARATOR = ''_'',
      APP_LOG_SIZE = 10485760, DASHBOARD_LOG_SIZE = 52428800,
      DASHBOARD_PROJECT_ID = ''appscaledashboard'', DEFAULT_MAX_MEMORY = 400,
      INSTANCE_CLASSES = [(''F1'', 128), (''F2'', 256), (''F4'', 512)],
      LOGROTATE_CONFIG_DIR = ''/etc/logrotate.d'', MONIT_CONFIG_DIR = ''/etc/monit/conf.d'',
      MONIT_LOCATION = ''http://localhost:2812'', APPSCALE_HOME = ''/root/appscale'',
      UA_SERVER_PORT = 4343, DB_SERVER_PORT = 8888, PID_DIR = ''/var/run/appscale'',
      JAVA_APPSERVER = ''/root/appscale/AppServer_Java''\<rparr>"

definition example_details :: version_details where
  "example_details = \<lparr>runtime = ''python27'', revision = 2, sourceUrl = ''/opt/appscale/apps/p.tar.gz'',
      instanceClass = None\<rparr>"

definition example_env :: env where
  "example_env =
     \<lparr>projects_manager = [(''p'', [(''s'', [(''v'', example_details)])])],
      runtime_params = Some [], gcs = Some [], ensure_source_raises = None,
      monit_start = True, monit_stop = True,
      monit_entries = [''app___p-s-v-1-8080'', ''other''],
      unmonitor_fetch = (\<lambda>i. FetchOK), undeletable = {}, unwritable = {},
      walk = (\<lambda>top. []), parse_xml = (\<lambda>f. Inl (IOError f)),
      find_web_inf = (\<lambda>d. Inl (BadConfigurationException d)), num_cpus = 2\<rparr>"


subsection \<open>The order of arguments in a command line\<close>

text \<open>
  \<open>contains_in_order args s\<close>: the strings of \<open>args\<close> occur in \<open>s\<close> one after the
  other, without overlap. The two lists are the names of the arguments in the order the
  specification states them and in the order of the list in \<open>create_python27_start_cmd\<close>.
\<close>

fun after_first :: "string \<Rightarrow> string \<Rightarrow> string option" where
  "after_first a [] = (if a = [] then Some [] else None)"
| "after_first a (x # xs) =
     (if startswith (x # xs) a then Some (drop (length a) (x # xs)) else after_first a xs)"

fun contains_in_order :: "string list \<Rightarrow> string \<Rightarrow> bool" where
  "contains_in_order [] s = True"
| "contains_in_order (a # as) s =
     (case after_first a s of None \<Rightarrow> False | Some rest \<Rightarrow> contains_in_order as rest)"

definition spec_python27_order :: "constants \<Rightarrow> string \<Rightarrow> string list" where
  "spec_python27_order c revision_key =
     [''--port'', ''--admin_port'', ''--login_server'',
      ''--skip_sdk_update_check'', ''--require_indexes'', ''--enable_sendmail'',
      ''--automatic_restart'',
      ''--nginx_host'', ''--xmpp_path'', ''--php_executable_path'', ''--uaserver_path'',
      ''--datastore_path'', os_path_join (UNPACK_ROOT c) [revision_key, ''app''],
      ''--host'', ''--admin_host'', ''--pidfile'']"

definition code_python27_order :: "constants \<Rightarrow> string \<Rightarrow> string list" where
  "code_python27_order c revision_key =
     [''--port'', ''--admin_port'', ''--login_server'',
      ''--skip_sdk_update_check'', ''--nginx_host'', ''--require_indexes'', ''--enable_sendmail'',
      ''--xmpp_path'', ''--php_executable_path'', ''--uaserver_path'',
      ''--datastore_path'', os_path_join (UNPACK_ROOT c) [revision_key, ''app''],
      ''--host'', ''--admin_host'', ''--automatic_restart'', ''--pidfile'']"

subsection \<open>The entries of an XML document\<close>

text \<open>
  The entries of the \<^verbatim>\<open>env-variables\<close> sections of a document in document order, with
  the binding each of them gives; and whether the deployment configuration has a GCS
  host.
\<close>

definition entry_binding :: "element \<Rightarrow> (string \<times> string) option" where
  "entry_binding env_var =
     (case (map_of (attrib env_var) ''name'', map_of (attrib env_var) ''value'') of
        (Some k, Some v) \<Rightarrow> Some (k, v)
      | _ \<Rightarrow> None)"

definition env_entries :: "element \<Rightarrow> element list" where
  "env_entries root =
     concat (map children (filter (\<lambda>child. endswith (tag child) ''env-variables'') (children root)))"

definition env_bindings :: "element \<Rightarrow> (string \<times> string) list" where
  "env_bindings root = List.map_filter entry_binding (env_entries root)"

definition well_formed_entries :: "element \<Rightarrow> bool" where
  "well_formed_entries root = list_all (\<lambda>env_var. entry_binding env_var \<noteq> None) (env_entries root)"

definition gcs_host_configured :: "env \<Rightarrow> bool" where
  "gcs_host_configured e = (case gcs e of None \<Rightarrow> False | Some g \<Rightarrow> map_of g ''host'' \<noteq> None)"

definition example_xml :: element where
  "example_xml =
     Element ''appengine-web-app'' [(''xmlns'', ''http://appengine.google.com/ns/1.0'')]
       [Element ''{http://appengine.google.com/ns/1.0}threadsafe'' [] [],
        Element ''{http://appengine.google.com/ns/1.0}env-variables'' []
          [Element ''{http://appengine.google.com/ns/1.0}env-var''
             [(''name'', ''GCS_HOST''), (''value'', ''storage.example.com'')] [],
           Element ''{http://appengine.google.com/ns/1.0}env-var''
             [(''name'', ''MODE''), (''value'', ''test'')] [],
           Element ''{http://appengine.google.com/ns/1.0}env-var''
             [(''name'', ''MODE''), (''value'', ''prod'')] []]]"

definition java_env :: env where
  "java_env =
     \<lparr>projects_manager = [], runtime_params = Some [], gcs = Some [(''host'', ''10.0.0.5'')],
      ensure_source_raises = None, monit_start = True, monit_stop = True, monit_entries = [],
      unmonitor_fetch = (\<lambda>i. FetchOK), undeletable = {}, unwritable = {},
      walk = (\<lambda>top. if top = ''/var/apps/guestbook/app''
                      then [(''/var/apps/guestbook/app'', []),
                            (''/var/apps/guestbook/app/WEB-INF'', [''appengine-web.xml'', ''web.xml''])]
                      else []),
      parse_xml = (\<lambda>f. if f = ''/var/apps/guestbook/app/WEB-INF/appengine-web.xml''
                         then Inr example_xml else Inl (IOError f)),
      find_web_inf = (\<lambda>d. Inl (BadConfigurationException d)), num_cpus = 2\<rparr>"

subsection \<open>Stopping and starting\<close>

text \<open>
  The calls of \<open>clean_old_revisions\<close> and the calls to the supervisor in a trace, the
  paths of the two configuration files of an instance, and the nodes of the examples.
\<close>

fun is_gc :: "event \<Rightarrow> bool" where
  "is_gc (CleanOldRevisions active) = True"
| "is_gc _ = False"

definition gc_calls :: "world \<Rightarrow> event list" where
  "gc_calls w = filter is_gc (trace w)"

definition monit_config_path :: "constants \<Rightarrow> string \<Rightarrow> int \<Rightarrow> string" where
  "monit_config_path c app_name port =
     MONIT_CONFIG_DIR c @ ''/appscale-'' @ MONIT_INSTANCE_PREFIX @ app_name @ ''-'' @ str_int port @ ''.cfg''"

definition logrotate_path :: "constants \<Rightarrow> string \<Rightarrow> string" where
  "logrotate_path c app_name = LOGROTATE_CONFIG_DIR c @ ''/appscale-'' @ app_name"

definition running_world :: world where
  "running_world =
     \<lparr>files = [(''/var/run/appscale/app___guestbook-8080.pid'', ''4242''),
               (''/etc/monit/conf.d/appscale-app___guestbook-8080.cfg'', ''dev_appserver''),
               (''/etc/logrotate.d/appscale-guestbook'', ''rotate'')],
      trace = []\<rparr>"

definition not_listed :: "nat \<Rightarrow> fetch_result" where
  "not_listed i = FetchRaises (HTTPError 404 ''Not Found'')"

definition not_listed_env :: env where
  "not_listed_env = example_env\<lparr>unmonitor_fetch := not_listed\<rparr>"

fun is_supervisor_call :: "event \<Rightarrow> bool" where
  "is_supervisor_call (CreateConfigFile watch start_cmd pidfile port vars max_memory syslog check_port) = True"
| "is_supervisor_call (MonitStart watch is_group) = True"
| "is_supervisor_call _ = False"

definition supervisor_calls :: "world \<Rightarrow> event list" where
  "supervisor_calls w = filter is_supervisor_call (trace w)"

definition java_details :: version_details where
  "java_details = \<lparr>runtime = ''java'', revision = 1, sourceUrl = ''/opt/appscale/apps/javaapp.tar.gz'',
      instanceClass = Some ''F1''\<rparr>"

definition java_small_env :: env where
  "java_small_env = example_env\<lparr>projects_manager := [(''javaapp'', [(''default'', [(''v1'', java_details)])])]\<rparr>"

definition example_config :: start_config where
  "example_config = \<lparr>app_port = Some 8080, service_id = Some ''default'', version_id = Some ''v1'',
      env_vars = Some []\<rparr>"

definition python_details :: version_details where
  "python_details = \<lparr>runtime = ''python27'', revision = 1,
      sourceUrl = ''/opt/appscale/apps/guestbook.tar.gz'', instanceClass = None\<rparr>"

definition guestbook_env :: env where
  "guestbook_env = example_env\<lparr>projects_manager := [(''guestbook'', [(''default'', [(''v1'', python_details)])])]\<rparr>"

definition readonly_logrotate_env :: env where
  "readonly_logrotate_env = guestbook_env\<lparr>unwritable := {''/etc/logrotate.d/appscale-guestbook''}\<rparr>"

fun is_log :: "event \<Rightarrow> bool" where
  "is_log (Log lvl template args) = True"
| "is_log _ = False"

section \<open>Properties\<close>

subsection \<open>The health probe\<close>

lemma wait_loop_result:
  "fst (wait_loop outcomes url i n w) =
     (case find (\<lambda>j. outcomes j \<noteq> RaisesIOError) [i..<i + n] of
        None \<Rightarrow> Inr False
      | Some j \<Rightarrow> (case outcomes j of Responds r \<Rightarrow> Inr True | RaisesIOError \<Rightarrow> Inr False | RaisesOther e \<Rightarrow> Inl e))"
proof (induction n arbitrary: i w)
  case 0
  show ?case by simp
next
  case (Suc n)
  have upt: "[i..<i + Suc n] = i # [Suc i..<Suc i + n]"
    by (simp add: upt_conv_Cons)
  show ?case
    unfolding upt using Suc.IH [of "Suc i"]
    by (cases "outcomes i") (simp_all add: opener_open_def)
qed

lemma wait_budget_180: "wait_budget = 180"
  by (simp add: wait_budget_def START_APP_TIMEOUT_def BACKOFF_TIME_def)

text \<open>
  Claim C2, as the code has it. \<open>wait_on_app\<close> makes at most 180 attempts. Its result is
  decided by the first attempt, among these, that does not raise an IOError: an HTTP
  response of any status code makes it return True (a code other than 200 is only
  logged), an exception that is not an IOError escapes, and when all 180 attempts
  raise IOError it returns False.
\<close>

theorem wait_on_app_first_answer:
  "fst (wait_on_app outcomes opts port w) =
     (case find (\<lambda>j. outcomes j \<noteq> RaisesIOError) [0..<180] of
        None \<Rightarrow> Inr False
      | Some j \<Rightarrow> (case outcomes j of Responds r \<Rightarrow> Inr True | RaisesIOError \<Rightarrow> Inr False | RaisesOther e \<Rightarrow> Inl e))"
  unfolding wait_on_app_def wait_budget_180 using wait_loop_result [of outcomes _ 0 180 w]
  by simp

lemma wait_loop_responds:
  "outcomes i = Responds r \<Longrightarrow> 0 < n \<Longrightarrow> fst (wait_loop outcomes url i n w) = Inr True"
  by (cases n) (simp_all add: opener_open_def)

text \<open>
  Claim C2 as stated fails: a response with status 500 is neither 2xx nor 3xx, and
  \<open>wait_on_app\<close> returns True on it.
\<close>

theorem wait_on_app_status_500_counterexample:
  "fst (wait_on_app server_error_500 example_options 8080 empty_world) = Inr True
   \<and> \<not> spec_wait_on_app server_error_500"
proof
  have "server_error_500 0 = Responds \<lparr>code = 500, headers = ''[]''\<rparr>"
    by (simp add: server_error_500_def)
  then show "fst (wait_on_app server_error_500 example_options 8080 empty_world) = Inr True"
    unfolding wait_on_app_def by (rule wait_loop_responds) (simp add: wait_budget_180)
  show "\<not> spec_wait_on_app server_error_500"
    by (simp add: spec_wait_on_app_def list_ex_iff yields_2xx_3xx_def server_error_500_def)
qed

subsection \<open>add_routing\<close>

lemma routing_loop_ends:
  "acc (i + k) \<noteq> NOT_READY \<Longrightarrow> (\<forall>j<k. acc (i + j) = NOT_READY) \<Longrightarrow>
   routing_loop acc app ip port i w =
     Some (w\<lparr>trace := trace w
              @ concat (replicate k [AddRoutingForAppserver app ip port, Sleep ROUTING_RETRY_INTERVAL])
              @ [AddRoutingForAppserver app ip port]\<rparr>)"
proof (induction k arbitrary: i w)
  case 0
  then show ?case by (subst routing_loop.simps) (simp add: emit_def)
next
  case (Suc k)
  have a: "acc i = NOT_READY" using Suc.prems(2) [rule_format, of 0] by simp
  have b: "acc (Suc i + k) \<noteq> NOT_READY" using Suc.prems(1) by simp
  have c: "\<forall>j<k. acc (Suc i + j) = NOT_READY"
  proof (intro allI impI)
    fix j assume "j < k"
    then show "acc (Suc i + j) = NOT_READY" using Suc.prems(2) [rule_format, of "Suc j"] by simp
  qed
  show ?case
    by (subst routing_loop.simps) (simp add: a Suc.IH [OF b c] emit_def)
qed

lemma routing_loop_some_ready:
  assumes "routing_loop acc app ip port i w = Some w'"
  shows "\<exists>j. acc (i + j) \<noteq> NOT_READY"
proof (rule routing_loop.raw_induct
    [where P = "\<lambda>acc app ip port i w w'. \<exists>j. acc (i + j) \<noteq> NOT_READY", OF _ assms])
  fix f :: "(nat \<Rightarrow> acc_result) \<Rightarrow> string \<Rightarrow> string \<Rightarrow> int \<Rightarrow> nat \<Rightarrow> world \<Rightarrow> world option"
    and acc app ip port i w y
  assume IH: "\<And>acc app ip port i w y. f acc app ip port i w = Some y \<Longrightarrow> \<exists>j. acc (i + j) \<noteq> NOT_READY"
    and step: "(if acc i = NOT_READY
       then f acc app ip port (Suc i)
              (emit (Sleep ROUTING_RETRY_INTERVAL) (emit (AddRoutingForAppserver app ip port) w))
       else Some (emit (AddRoutingForAppserver app ip port) w)) = Some y"
  show "\<exists>j. acc (i + j) \<noteq> NOT_READY"
  proof (cases "acc i = NOT_READY")
    case True
    with step have "f acc app ip port (Suc i)
        (emit (Sleep ROUTING_RETRY_INTERVAL) (emit (AddRoutingForAppserver app ip port) w)) = Some y"
      by simp
    from IH [OF this] obtain j where "acc (Suc i + j) \<noteq> NOT_READY" ..
    then have "acc (i + Suc j) \<noteq> NOT_READY" by simp
    then show ?thesis by blast
  next
    case False
    then have "acc (i + 0) \<noteq> NOT_READY" by simp
    then show ?thesis by blast
  qed
qed

lemma routing_loop_never_ends:
  "(\<forall>j. acc j = NOT_READY) \<Longrightarrow> routing_loop acc app ip port i w = None"
  using routing_loop_some_ready [of acc app ip port i w] by (cases "routing_loop acc app ip port i w") auto

lemma wait_loop_registrations:
  "registrations (snd (wait_loop outcomes url i n w)) = registrations w"
  by (induction n arbitrary: i w)
     (auto simp: registrations_def emit_def split: open_outcome.splits)

text \<open>
  Claim C3. When the health probe does not return True, \<open>add_routing\<close> ends without a
  single registration call. When it returns True, the registration calls follow the
  probe in the trace: as long as the controller answers NOT_READY the call is repeated
  after a sleep of 5 seconds, the first other answer ends the task, and when every
  answer is NOT_READY the task never ends.
\<close>

theorem add_routing_registers_after_probe:
  "(fst (wait_on_app outcomes opts port w) \<noteq> Inr True \<longrightarrow>
      (\<exists>r. add_routing outcomes acc opts app port w = Some r
           \<and> registrations (snd r) = registrations w))
   \<and> (fst (wait_on_app outcomes opts port w) = Inr True \<longrightarrow>
        (\<forall>k. acc k \<noteq> NOT_READY \<and> (\<forall>j<k. acc j = NOT_READY) \<longrightarrow>
           (\<exists>w'. add_routing outcomes acc opts app port w = Some (Inr (), w')
              \<and> trace w' = trace (snd (wait_on_app outcomes opts port w))
                   @ concat (replicate k [AddRoutingForAppserver app (private_ip opts) port,
                                          Sleep 5])
                   @ [AddRoutingForAppserver app (private_ip opts) port]))
        \<and> ((\<forall>j. acc j = NOT_READY) \<longrightarrow> add_routing outcomes acc opts app port w = None))"
proof (intro conjI impI allI)
  assume "fst (wait_on_app outcomes opts port w) \<noteq> Inr True"
  moreover have "registrations (snd (wait_on_app outcomes opts port w)) = registrations w"
    unfolding wait_on_app_def by (rule wait_loop_registrations)
  ultimately show "\<exists>r. add_routing outcomes acc opts app port w = Some r
           \<and> registrations (snd r) = registrations w"
    by (cases "wait_on_app outcomes opts port w")
       (auto simp: add_routing_def registrations_def emit_def split: sum.splits bool.splits)
next
  fix k
  assume t: "fst (wait_on_app outcomes opts port w) = Inr True"
    and k: "acc k \<noteq> NOT_READY \<and> (\<forall>j<k. acc j = NOT_READY)"
  from k have "routing_loop acc app (private_ip opts) port 0 (snd (wait_on_app outcomes opts port w)) =
     Some ((snd (wait_on_app outcomes opts port w))\<lparr>trace := trace (snd (wait_on_app outcomes opts port w))
              @ concat (replicate k [AddRoutingForAppserver app (private_ip opts) port, Sleep ROUTING_RETRY_INTERVAL])
              @ [AddRoutingForAppserver app (private_ip opts) port]\<rparr>)"
    by (intro routing_loop_ends) simp_all
  with t show "\<exists>w'. add_routing outcomes acc opts app port w = Some (Inr (), w')
              \<and> trace w' = trace (snd (wait_on_app outcomes opts port w))
                   @ concat (replicate k [AddRoutingForAppserver app (private_ip opts) port,
                                          Sleep 5])
                   @ [AddRoutingForAppserver app (private_ip opts) port]"
    by (cases "wait_on_app outcomes opts port w")
       (simp add: add_routing_def ROUTING_RETRY_INTERVAL_def)
next
  assume t: "fst (wait_on_app outcomes opts port w) = Inr True"
    and n: "\<forall>j. acc j = NOT_READY"
  from n have "routing_loop acc app (private_ip opts) port 0 (snd (wait_on_app outcomes opts port w)) = None"
    by (rule routing_loop_never_ends)
  with t show "add_routing outcomes acc opts app port w = None"
    by (cases "wait_on_app outcomes opts port w") (simp add: add_routing_def)
qed

lemma wait_loop_IOError:
  "outcomes i = RaisesIOError \<Longrightarrow> 0 < n \<Longrightarrow>
   wait_loop outcomes url i n w = wait_loop outcomes url (Suc i) (n - 1) (emit (Sleep BACKOFF_TIME) w)"
  by (cases n) (simp_all add: opener_open_def)

lemma wait_loop_Responds:
  "outcomes i = Responds r \<Longrightarrow> 0 < n \<Longrightarrow>
   wait_loop outcomes url i n w =
     (Inr True,
      if code r \<noteq> HTTP_OK
      then emit (Log WARNING ''{} returned {}. Headers: {}'' [url, str_nat (code r), headers r]) w
      else w)"
  by (cases n) (simp_all add: opener_open_def NoRedirection_http_response_def)

lemma wait_loop_all_IOError:
  "(\<forall>j. outcomes j = RaisesIOError) \<Longrightarrow> fst (wait_loop outcomes url i n w) = Inr False"
  by (induction n arbitrary: i w) (simp_all add: opener_open_def)
text \<open>
  An instance that is up on the second probe, with a controller that is ready on the
  third call; an instance that never comes up; and a controller that is never ready.
\<close>

theorem add_routing_registers_after_probe_witness:
  "(\<exists>w'. add_routing up_on_second_probe ready_on_third_call example_options ''guestbook'' 8080
            empty_world = Some (Inr (), w')
        \<and> trace w' =
            [Sleep 1,
             AddRoutingForAppserver ''guestbook'' ''10.0.0.2'' 8080, Sleep 5,
             AddRoutingForAppserver ''guestbook'' ''10.0.0.2'' 8080, Sleep 5,
             AddRoutingForAppserver ''guestbook'' ''10.0.0.2'' 8080])
   \<and> (\<exists>r. add_routing never_up ready_on_third_call example_options ''guestbook'' 8080
            empty_world = Some r
        \<and> registrations (snd r) = [])
   \<and> add_routing up_on_second_probe never_ready example_options ''guestbook'' 8080 empty_world
       = None"
proof -
  have o: "up_on_second_probe 0 = RaisesIOError"
    "up_on_second_probe (Suc 0) = Responds \<lparr>code = 200, headers = ''[]''\<rparr>"
    by (simp_all add: up_on_second_probe_def)
  have w: "wait_on_app up_on_second_probe example_options 8080 empty_world =
    (Inr True, \<lparr>files = [], trace = [Sleep 1]\<rparr>)"
    unfolding wait_on_app_def wait_budget_180
    by (simp add: wait_loop_IOError [of up_on_second_probe 0] wait_loop_Responds [of up_on_second_probe "Suc 0"] o HTTP_OK_def emit_def
        empty_world_def BACKOFF_TIME_def)
  have p: "fst (wait_on_app up_on_second_probe example_options 8080 empty_world) = Inr True"
    and tr: "trace (snd (wait_on_app up_on_second_probe example_options 8080 empty_world)) = [Sleep 1]"
    by (simp_all add: w)
  have k: "ready_on_third_call 2 \<noteq> NOT_READY \<and> (\<forall>j<2. ready_on_third_call j = NOT_READY)"
    by (simp add: ready_on_third_call_def)
  have q: "fst (wait_on_app never_up example_options 8080 empty_world) \<noteq> Inr True"
    unfolding wait_on_app_def by (subst wait_loop_all_IOError) (simp_all add: never_up_def)
  have e: "registrations empty_world = []" "private_ip example_options = ''10.0.0.2''"
    by (simp_all add: registrations_def empty_world_def example_options_def)
  from add_routing_registers_after_probe
         [of up_on_second_probe example_options 8080 empty_world ready_on_third_call "''guestbook''"]
       p k
  have a: "\<exists>w'. add_routing up_on_second_probe ready_on_third_call example_options ''guestbook'' 8080
            empty_world = Some (Inr (), w')
        \<and> trace w' = trace (snd (wait_on_app up_on_second_probe example_options 8080 empty_world))
                   @ concat (replicate 2 [AddRoutingForAppserver ''guestbook'' (private_ip example_options) 8080,
                                          Sleep 5])
                   @ [AddRoutingForAppserver ''guestbook'' (private_ip example_options) 8080]"
    by blast
  from add_routing_registers_after_probe
         [of never_up example_options 8080 empty_world ready_on_third_call "''guestbook''"] q
  have b: "\<exists>r. add_routing never_up ready_on_third_call example_options ''guestbook'' 8080
            empty_world = Some r \<and> registrations (snd r) = registrations empty_world"
    by blast
  from add_routing_registers_after_probe
         [of up_on_second_probe example_options 8080 empty_world never_ready "''guestbook''"] p
  have n: "add_routing up_on_second_probe never_ready example_options ''guestbook'' 8080 empty_world
       = None"
    by (simp add: never_ready_def)
  from a b n show ?thesis
    by (simp add: tr e numeral_2_eq_2)
qed

subsection \<open>unmonitor\<close>

lemma posts_emit_post: "posts (emit (HttpPost url body) w) = Suc (posts w)"
  by (simp add: posts_def emit_def)

lemma unmonitor_busy_retry:
  "is_busy (fetch i) \<Longrightarrow> 0 < retries \<Longrightarrow>
   unmonitor fetch loc name retries i w =
     unmonitor fetch loc name (retries - 1) (Suc i)
       (emit (HttpPost (loc @ ''/'' @ name) ''action=unmonitor'') w)"
  by (subst unmonitor.simps) (auto split: fetch_result.splits error.splits elim: is_busy.elims)

lemma unmonitor_busy_surfaces:
  "is_busy (fetch i) \<Longrightarrow> retries \<le> 0 \<Longrightarrow>
   unmonitor fetch loc name retries i w =
     (Inl (raised (fetch i)), emit (HttpPost (loc @ ''/'' @ name) ''action=unmonitor'') w)"
  by (subst unmonitor.simps) (auto split: fetch_result.splits error.splits elim: is_busy.elims)

lemma unmonitor_ok:
  "fetch i = FetchOK \<Longrightarrow>
   unmonitor fetch loc name retries i w =
     (Inr (), emit (HttpPost (loc @ ''/'' @ name) ''action=unmonitor'') w)"
  by (subst unmonitor.simps) simp

lemma unmonitor_busy_prefix:
  "(\<forall>j<k. is_busy (fetch (i + j))) \<Longrightarrow> int k \<le> retries \<Longrightarrow>
   \<exists>w'. unmonitor fetch loc name retries i w = unmonitor fetch loc name (retries - int k) (i + k) w'
        \<and> posts w' = posts w + k"
proof (induction k arbitrary: i retries w)
  case 0
  show ?case by (rule exI [of _ w]) simp
next
  case (Suc k)
  have b: "is_busy (fetch i)" using Suc.prems(1) [rule_format, of 0] by simp
  have r: "0 < retries" using Suc.prems(2) by simp
  have c: "\<forall>j<k. is_busy (fetch (Suc i + j))"
  proof (intro allI impI)
    fix j assume "j < k"
    then show "is_busy (fetch (Suc i + j))" using Suc.prems(1) [rule_format, of "Suc j"] by simp
  qed
  have d: "int k \<le> retries - 1" using Suc.prems(2) by simp
  from Suc.IH [OF c d, of "emit (HttpPost (loc @ ''/'' @ name) ''action=unmonitor'') w"]
  obtain w' where "unmonitor fetch loc name (retries - 1) (Suc i)
       (emit (HttpPost (loc @ ''/'' @ name) ''action=unmonitor'') w) =
       unmonitor fetch loc name (retries - 1 - int k) (Suc i + k) w'"
     and "posts w' = posts (emit (HttpPost (loc @ ''/'' @ name) ''action=unmonitor'') w) + k"
    by blast
  then show ?case
    using unmonitor_busy_retry [of fetch i retries loc name w] b r
    by (auto simp: posts_emit_post algebra_simps)
qed

lemma unmonitor_posts_bound:
  "0 \<le> retries \<Longrightarrow> posts (snd (unmonitor fetch loc name retries i w)) \<le> posts w + nat retries + 1"
proof (induction fetch loc name retries i w rule: unmonitor.induct)
  case (1 fetch location process_name retries i w)
  show ?case
  proof (cases "is_busy (fetch i) \<and> 0 < retries")
    case True
    then have "fetch i = FetchRaises (raised (fetch i))" by (cases "fetch i") auto
    moreover from True obtain msg where "raised (fetch i) = HTTPError 503 msg"
      by (auto elim!: is_busy.elims)
    ultimately have "posts (snd (unmonitor fetch location process_name (retries - 1) (Suc i)
        (emit (HttpPost (location @ ''/'' @ process_name) ''action=unmonitor'') w)))
       \<le> posts (emit (HttpPost (location @ ''/'' @ process_name) ''action=unmonitor'') w) + nat (retries - 1) + 1"
      using "1.IH" [of "raised (fetch i)" 503 msg] True by simp
    then show ?thesis
      using True unmonitor_busy_retry [of fetch i retries location process_name w]
      by (simp add: posts_emit_post) linarith
  next
    case False
    then show ?thesis
      by (subst unmonitor.simps)
         (auto simp: posts_emit_post split: fetch_result.splits error.splits)
  qed
qed

text \<open>
  Claim C7. \<open>unmonitor\<close> makes at most 6 POST requests. When \<open>k \<le> 5\<close> answers of 503
  are followed by a success, it succeeds after \<open>k + 1\<close> requests; when the first 6
  answers are 503, the sixth error is raised to the caller.
\<close>

theorem unmonitor_retries_503:
  "posts (snd (unmonitor_default fetch loc name w)) \<le> posts w + 6
   \<and> (\<forall>k\<le>5. (\<forall>j<k. is_busy (fetch j)) \<and> fetch k = FetchOK \<longrightarrow>
         fst (unmonitor_default fetch loc name w) = Inr ()
         \<and> posts (snd (unmonitor_default fetch loc name w)) = posts w + k + 1)
   \<and> ((\<forall>j<6. is_busy (fetch j)) \<longrightarrow>
         fst (unmonitor_default fetch loc name w) = Inl (raised (fetch 5))
         \<and> posts (snd (unmonitor_default fetch loc name w)) = posts w + 6)"
proof (intro conjI allI impI)
  show "posts (snd (unmonitor_default fetch loc name w)) \<le> posts w + 6"
    using unmonitor_posts_bound [of 5 fetch loc name 0 w] by (simp add: unmonitor_default_def)
next
  fix k :: nat
  assume k: "k \<le> 5" and h: "(\<forall>j<k. is_busy (fetch j)) \<and> fetch k = FetchOK"
  from h k unmonitor_busy_prefix [of k fetch 0 5 loc name w]
  obtain w' where "unmonitor fetch loc name 5 0 w = unmonitor fetch loc name (5 - int k) k w'"
    and "posts w' = posts w + k" by auto
  with h show "fst (unmonitor_default fetch loc name w) = Inr ()"
    and "posts (snd (unmonitor_default fetch loc name w)) = posts w + k + 1"
    by (simp_all add: unmonitor_default_def unmonitor_ok posts_emit_post)
next
  assume h: "\<forall>j<6. is_busy (fetch j)"
  then have "\<forall>j<5. is_busy (fetch (0 + j))" by simp
  from unmonitor_busy_prefix [OF this, of 5 loc name w]
  obtain w' where "unmonitor fetch loc name 5 0 w = unmonitor fetch loc name 0 5 w'"
    and "posts w' = posts w + 5" by auto
  moreover have "is_busy (fetch 5)" using h by simp
  ultimately show "fst (unmonitor_default fetch loc name w) = Inl (raised (fetch 5))"
    and "posts (snd (unmonitor_default fetch loc name w)) = posts w + 6"
    by (simp_all add: unmonitor_default_def unmonitor_busy_surfaces posts_emit_post)
qed

text \<open>Monit answers 503 four times and then 200; and Monit answers 503 every time.\<close>

theorem unmonitor_retries_503_witness:
  "fst (unmonitor_default busy_four_times ''http://localhost:2812'' ''app___x-8080'' empty_world) = Inr ()
   \<and> posts (snd (unmonitor_default busy_four_times ''http://localhost:2812'' ''app___x-8080'' empty_world)) = 5
   \<and> fst (unmonitor_default always_busy ''http://localhost:2812'' ''app___x-8080'' empty_world)
       = Inl (HTTPError 503 ''Service Unavailable'')
   \<and> posts (snd (unmonitor_default always_busy ''http://localhost:2812'' ''app___x-8080'' empty_world)) = 6"
proof -
  have a: "(\<forall>j<4. is_busy (busy_four_times j)) \<and> busy_four_times 4 = FetchOK"
    by (simp add: busy_four_times_def)
  have b: "\<forall>j<6. is_busy (always_busy j)" "raised (always_busy 5) = HTTPError 503 ''Service Unavailable''"
    by (simp_all add: always_busy_def)
  have c: "posts empty_world = 0" by (simp add: posts_def empty_world_def)
  note th = unmonitor_retries_503
    [of busy_four_times "''http://localhost:2812''" "''app___x-8080''" empty_world,
     THEN conjunct2, THEN conjunct1, THEN spec, of 4]
  from th a
  have "fst (unmonitor_default busy_four_times ''http://localhost:2812'' ''app___x-8080'' empty_world) = Inr ()
   \<and> posts (snd (unmonitor_default busy_four_times ''http://localhost:2812'' ''app___x-8080'' empty_world))
       = posts empty_world + 4 + 1"
    by simp
  moreover
  from unmonitor_retries_503 [of always_busy "''http://localhost:2812''" "''app___x-8080''" empty_world] b
  have "fst (unmonitor_default always_busy ''http://localhost:2812'' ''app___x-8080'' empty_world)
       = Inl (HTTPError 503 ''Service Unavailable'')
   \<and> posts (snd (unmonitor_default always_busy ''http://localhost:2812'' ''app___x-8080'' empty_world)) = posts empty_world + 6"
    by simp
  ultimately show ?thesis by (simp add: c)
qed

subsection \<open>clean_old_sources\<close>







subsection \<open>The start command for python27, go and php\<close>

text \<open>
  Claim C6, as the code has it. The command line for python27, go and php is the
  launcher followed by the arguments in this order; \<^verbatim>\<open>--nginx_host\<close> stands between
  \<^verbatim>\<open>--skip_sdk_update_check\<close> and \<^verbatim>\<open>--require_indexes\<close>, \<^verbatim>\<open>--automatic_restart no\<close> stands
  after \<^verbatim>\<open>--admin_host\<close>, and \<^verbatim>\<open>--trusted\<close> is appended exactly for the project in
  \<open>TRUSTED_APPS\<close>.
\<close>

theorem create_python27_start_cmd_line:
  "create_python27_start_cmd c opts app_name login port pidfile revision_key =
     ''/usr/bin/python2 '' @ APPSCALE_HOME c @ ''/AppServer/dev_appserver.py''
     @ '' --port '' @ str_int port
     @ '' --admin_port '' @ str_int (port + 10000)
     @ '' --login_server '' @ login
     @ '' --skip_sdk_update_check''
     @ '' --nginx_host '' @ login
     @ '' --require_indexes''
     @ '' --enable_sendmail''
     @ '' --xmpp_path '' @ login
     @ '' --php_executable_path=/usr/bin/php-cgi''
     @ '' --uaserver_path '' @ db_proxy opts @ '':'' @ str_int (UA_SERVER_PORT c)
     @ '' --datastore_path '' @ db_proxy opts @ '':'' @ str_int (DB_SERVER_PORT c)
     @ '' '' @ os_path_join (UNPACK_ROOT c) [revision_key, ''app'']
     @ '' --host '' @ private_ip opts
     @ '' --admin_host '' @ private_ip opts
     @ '' --automatic_restart no''
     @ '' --pidfile '' @ pidfile
     @ (if app_name = ''appscaledashboard'' then '' --trusted'' else [])"
  by (simp add: create_python27_start_cmd_def python27_cmd_def TRUSTED_APPS_def TRUSTED_FLAG_def
      PHP_CGI_LOCATION_def)

lemma example_cmd:
  "create_python27_start_cmd example_constants example_options ''guestbook'' ''10.0.0.1'' 8080
     ''/var/run/appscale/app___guestbook-8080.pid'' ''guestbook_default_v1_1'' =
   ''/usr/bin/python2 /root/appscale/AppServer/dev_appserver.py --port 8080 --admin_port 18080 --login_server 10.0.0.1 --skip_sdk_update_check --nginx_host 10.0.0.1 --require_indexes --enable_sendmail --xmpp_path 10.0.0.1 --php_executable_path=/usr/bin/php-cgi --uaserver_path 10.0.0.3:4343 --datastore_path 10.0.0.3:8888 /var/apps/guestbook_default_v1_1/app --host 10.0.0.2 --admin_host 10.0.0.2 --automatic_restart no --pidfile /var/run/appscale/app___guestbook-8080.pid''"
  by (simp add: create_python27_start_cmd_def python27_cmd_def TRUSTED_APPS_def TRUSTED_FLAG_def
      PHP_CGI_LOCATION_def example_constants_def example_options_def str_int_def str_nat.simps
      digit_char_def os_path_join_def path_join2_def startswith_def endswith_def)

text \<open>
  Claim C6 as stated fails: in the command line built for a guestbook instance the
  arguments do not occur in the order the specification lists them (after
  \<^verbatim>\<open>--automatic_restart\<close> there is no \<^verbatim>\<open>--nginx_host\<close> left), while they do occur in
  the order of the code.
\<close>

theorem python27_spec_order_counterexample:
  "\<not> contains_in_order (spec_python27_order example_constants ''guestbook_default_v1_1'')
       (create_python27_start_cmd example_constants example_options ''guestbook'' ''10.0.0.1'' 8080
          ''/var/run/appscale/app___guestbook-8080.pid'' ''guestbook_default_v1_1'')
   \<and> contains_in_order (code_python27_order example_constants ''guestbook_default_v1_1'')
       (create_python27_start_cmd example_constants example_options ''guestbook'' ''10.0.0.1'' 8080
          ''/var/run/appscale/app___guestbook-8080.pid'' ''guestbook_default_v1_1'')"
  unfolding example_cmd
  by (simp add: spec_python27_order_def code_python27_order_def example_constants_def
      os_path_join_def path_join2_def startswith_def endswith_def)

subsection \<open>Validation in the stop operations\<close>



subsection \<open>The environment of a Java instance\<close>

lemma add_env_vars_bindings:
  "list_all (\<lambda>env_var. entry_binding env_var \<noteq> None) vs \<Longrightarrow>
   \<exists>custom'. add_env_vars vs custom = Inr custom'
      \<and> map_of custom' = map_of custom ++ map_of (rev (List.map_filter entry_binding vs))"
proof (induction vs arbitrary: custom)
  case Nil
  then show ?case by simp
next
  case (Cons x vs)
  from Cons.prems obtain k v where kv: "map_of (attrib x) ''name'' = Some k"
      "map_of (attrib x) ''value'' = Some v"
    by (auto simp: entry_binding_def split: option.splits)
  then have b: "entry_binding x = Some (k, v)" by (simp add: entry_binding_def)
  from Cons.prems have "list_all (\<lambda>env_var. entry_binding env_var \<noteq> None) vs" by simp
  from Cons.IH [OF this, of "AList.update k v custom"]
  obtain custom' where c: "add_env_vars vs (AList.update k v custom) = Inr custom'"
      "map_of custom' = map_of (AList.update k v custom) ++ map_of (rev (List.map_filter entry_binding vs))"
    by blast
  have "map_of custom' = map_of custom ++ map_of (rev (List.map_filter entry_binding (x # vs)))"
    by (simp add: c(2) b update_conv' map_add_upd_left)
  with c(1) kv show ?case by simp
qed

lemma scan_children_bindings:
  "list_all (\<lambda>env_var. entry_binding env_var \<noteq> None)
     (concat (map children (filter (\<lambda>child. endswith (tag child) ''env-variables'') cs))) \<Longrightarrow>
   \<exists>custom'. scan_children cs custom = Inr custom'
      \<and> map_of custom' = map_of custom
           ++ map_of (rev (List.map_filter entry_binding
                (concat (map children (filter (\<lambda>child. endswith (tag child) ''env-variables'') cs)))))"
proof (induction cs arbitrary: custom)
  case Nil
  then show ?case by simp
next
  case (Cons x cs)
  show ?case
  proof (cases "endswith (tag x) ''env-variables''")
    case False
    with Cons show ?thesis by simp
  next
    case True
    with Cons.prems have p: "list_all (\<lambda>env_var. entry_binding env_var \<noteq> None) (children x)"
      and q: "list_all (\<lambda>env_var. entry_binding env_var \<noteq> None)
        (concat (map children (filter (\<lambda>child. endswith (tag child) ''env-variables'') cs)))"
      by simp_all
    from add_env_vars_bindings [OF p, of custom]
    obtain c1 where c1: "add_env_vars (children x) custom = Inr c1"
      "map_of c1 = map_of custom ++ map_of (rev (List.map_filter entry_binding (children x)))"
      by blast
    from Cons.IH [OF q, of c1]
    obtain c2 where c2: "scan_children cs c1 = Inr c2"
      "map_of c2 = map_of c1 ++ map_of (rev (List.map_filter entry_binding
                (concat (map children (filter (\<lambda>child. endswith (tag child) ''env-variables'') cs)))))"
      by blast
    have "List.map_filter entry_binding (children x @ concat (map children
             (filter (\<lambda>child. endswith (tag child) ''env-variables'') cs)))
        = List.map_filter entry_binding (children x) @ List.map_filter entry_binding (concat (map children
             (filter (\<lambda>child. endswith (tag child) ''env-variables'') cs)))"
      by (simp add: List.map_filter_def)
    with True c1 c2 show ?thesis by simp
  qed
qed

lemma extract_env_vars_bindings:
  assumes "parse_xml e xml_file = Inr root" and "well_formed_entries root"
  shows "\<exists>custom. extract_env_vars_from_xml e xml_file = Inr custom
           \<and> map_of custom = map_of (rev (env_bindings root))"
  using assms scan_children_bindings [of "children root" "[]"]
  by (simp add: extract_env_vars_from_xml_def well_formed_entries_def env_entries_def env_bindings_def)

lemma gcs_host_None:
  "\<not> gcs_host_configured e \<Longrightarrow>
   gcs_host (case gcs e of None \<Rightarrow> [(''scheme'', ''https''), (''port'', ''443'')]
             | Some g \<Rightarrow> AList.merge [(''scheme'', ''https''), (''port'', ''443'')] g) = None"
  by (auto simp: gcs_host_configured_def gcs_host_def merge_conv' map_add_def
      split: option.splits)

text \<open>
  Claim C9, as the code has it. When the application's \<^verbatim>\<open>appengine-web.xml\<close> is found
  and parsed and every entry of its \<^verbatim>\<open>env-variables\<close> sections has a name and a value,
  \<open>create_java_app_env\<close> returns a map, and the map binds \<open>k\<close> to \<open>v\<close> whenever \<open>v\<close> is
  the value of the last entry named \<open>k\<close> in document order, unless \<open>k\<close> is
  \<^verbatim>\<open>GCS_HOST\<close> and the deployment configuration has a GCS host.
\<close>

theorem java_env_has_last_bindings:
  assumes "find_web_xml e app_name = Inr config_file"
      and "parse_xml e config_file = Inr root"
      and "well_formed_entries root"
  shows "\<exists>env_vars w'. create_java_app_env c e app_name w = (Inr env_vars, w')
           \<and> (\<forall>k v. map_of (rev (env_bindings root)) k = Some v
                  \<and> (k = ''GCS_HOST'' \<longrightarrow> \<not> gcs_host_configured e)
                \<longrightarrow> map_of env_vars k = Some v)"
proof -
  from extract_env_vars_bindings [OF assms(2,3)]
  obtain custom where cu: "extract_env_vars_from_xml e config_file = Inr custom"
    "map_of custom = map_of (rev (env_bindings root))" by blast
  define gcs_config where "gcs_config = (case gcs e of None \<Rightarrow> [(''scheme'', ''https''), (''port'', ''443'')]
             | Some g \<Rightarrow> AList.merge [(''scheme'', ''https''), (''port'', ''443'')] g)"
  define base where "base = AList.merge [(''APPSCALE_HOME'', APPSCALE_HOME c)] custom"
  define env_vars where "env_vars = (case gcs_host gcs_config of
                          Some url \<Rightarrow> AList.update ''GCS_HOST'' url base
                        | None \<Rightarrow> base)"
  have r: "fst (create_java_app_env c e app_name w) = Inr env_vars"
    by (simp add: create_java_app_env_def assms(1) cu(1) env_vars_def base_def gcs_config_def
        split: option.splits prod.splits)
  have "map_of env_vars k = Some v"
    if h: "map_of (rev (env_bindings root)) k = Some v"
      "k = ''GCS_HOST'' \<longrightarrow> \<not> gcs_host_configured e" for k v
  proof -
    have b: "map_of base k = Some v"
      by (simp add: base_def merge_conv' cu(2) h(1) map_add_def)
    show ?thesis
    proof (cases "k = ''GCS_HOST''")
      case True
      with h(2) have "gcs_host gcs_config = None"
        unfolding gcs_config_def by (intro gcs_host_None) simp
      then show ?thesis by (simp add: env_vars_def b)
    next
      case False
      then show ?thesis by (simp add: env_vars_def b update_conv' split: option.splits)
    qed
  qed
  with r show ?thesis by (cases "create_java_app_env c e app_name w") auto
qed

lemma java_env_xml:
  "find_web_xml java_env ''guestbook'' = Inr ''/var/apps/guestbook/app/WEB-INF/appengine-web.xml''"
  "parse_xml java_env ''/var/apps/guestbook/app/WEB-INF/appengine-web.xml'' = Inr example_xml"
  by (simp_all add: find_web_xml_def java_env_def os_path_join_def path_join2_def startswith_def
      endswith_def)

lemma example_xml_bindings:
  "env_bindings example_xml =
     [(''GCS_HOST'', ''storage.example.com''), (''MODE'', ''test''), (''MODE'', ''prod'')]"
  by (simp add: env_bindings_def env_entries_def example_xml_def endswith_def entry_binding_def)

lemma example_xml_well_formed: "well_formed_entries example_xml"
  by (simp add: well_formed_entries_def env_entries_def example_xml_def endswith_def
      entry_binding_def)

text \<open>
  The example document binds \<^verbatim>\<open>MODE\<close> twice; the second value is in the map.
\<close>

theorem java_env_has_last_bindings_witness:
  "\<exists>env_vars w'. create_java_app_env example_constants java_env ''guestbook'' empty_world
        = (Inr env_vars, w')
     \<and> map_of env_vars ''MODE'' = Some ''prod''"
proof -
  have "map_of (rev (env_bindings example_xml)) ''MODE'' = Some ''prod''
        \<and> (''MODE'' = ''GCS_HOST'' \<longrightarrow> \<not> gcs_host_configured java_env)"
    by (simp add: example_xml_bindings)
  with java_env_has_last_bindings
         [OF java_env_xml example_xml_well_formed, of example_constants empty_world]
  show ?thesis by blast
qed

text \<open>
  Claim C9 as stated fails: the example document has the entries
  \<^verbatim>\<open>GCS_HOST=storage.example.com\<close> and \<^verbatim>\<open>MODE=test\<close>, and the map that is returned binds
  \<^verbatim>\<open>GCS_HOST\<close> to the address made from the deployment configuration and \<^verbatim>\<open>MODE\<close> to
  the value of the later entry.
\<close>

theorem java_env_overwritten_counterexample:
  "fst (create_java_app_env example_constants java_env ''guestbook'' empty_world) =
     Inr [(''APPSCALE_HOME'', ''/root/appscale''), (''MODE'', ''prod''),
          (''GCS_HOST'', ''https://10.0.0.5:443'')]
   \<and> (''GCS_HOST'', ''storage.example.com'') \<in> set (env_bindings example_xml)
   \<and> (''MODE'', ''test'') \<in> set (env_bindings example_xml)"
proof (intro conjI)
  show "fst (create_java_app_env example_constants java_env ''guestbook'' empty_world) =
     Inr [(''APPSCALE_HOME'', ''/root/appscale''), (''MODE'', ''prod''),
          (''GCS_HOST'', ''https://10.0.0.5:443'')]"
    by (simp add: create_java_app_env_def java_env_xml extract_env_vars_from_xml_def
        example_xml_def endswith_def example_constants_def)
       (simp add: java_env_def gcs_host_def AList.merge_def)
  show "(''GCS_HOST'', ''storage.example.com'') \<in> set (env_bindings example_xml)"
    and "(''MODE'', ''test'') \<in> set (env_bindings example_xml)"
    by (simp_all add: example_xml_bindings)
qed

subsection \<open>Stopping one instance\<close>

lemma unmonitor_world:
  "files (snd (unmonitor fetch loc name retries i w)) = files w
   \<and> filter is_gc (trace (snd (unmonitor fetch loc name retries i w))) = filter is_gc (trace w)
   \<and> (MonitReload \<in> set (trace (snd (unmonitor fetch loc name retries i w))) \<longleftrightarrow> MonitReload \<in> set (trace w))"
proof (induction fetch loc name retries i w rule: unmonitor.induct)
  case (1 fetch location process_name retries i w)
  show ?case
    apply (subst (1 2 3) unmonitor.simps)
    using "1.IH"
    apply (auto simp: emit_def split: fetch_result.splits error.splits)
    done
qed

lemma unmonitor_default_world:
  "files (snd (unmonitor_default fetch loc name w)) = files w"
  "gc_calls (snd (unmonitor_default fetch loc name w)) = gc_calls w"
  using unmonitor_world [of fetch loc name 5 0 w]
  by (simp_all add: unmonitor_default_def gc_calls_def)

lemma os_remove_files:
  "map_of (files (snd (os_remove e p w))) q
     = (if q = p \<and> p \<notin> undeletable e then None else map_of (files w) q)"
  by (simp add: os_remove_def delete_conv' map_of_eq_None_iff delete_notin_dom)

lemma os_remove_trace: "trace (snd (os_remove e p w)) = trace w"
  by (simp add: os_remove_def)

lemma exists_file_map_of: "exists_file w p \<longleftrightarrow> map_of (files w) p \<noteq> None"
  by (simp add: exists_file_def map_of_eq_None_iff)

lemma valid_name_chars:
  assumes "is_app_name_valid app_name"
  shows "CHR ''.'' \<notin> set app_name"
proof
  assume "CHR ''.'' \<in> set app_name"
  with assms have "CHR ''.'' \<in> set ''abcdefghijklmnopqrstuvwxyz0123456789-''"
    unfolding is_app_name_valid_def list_all_iff by blast
  then show False by simp
qed

lemma take_short: "n \<le> length xs \<Longrightarrow> take n (xs @ ys) = take n xs"
  by simp

lemma config_path_not_logrotate_path:
  assumes "is_app_name_valid app_name"
  shows "logrotate_path c app_name \<noteq> monit_config_path c app_name port"
proof
  assume eq: "logrotate_path c app_name = monit_config_path c app_name port"
  have "CHR ''.'' \<in> set (take 4 (rev (monit_config_path c app_name port)))"
    by (simp add: monit_config_path_def)
  moreover have "rev (logrotate_path c app_name)
      = (rev app_name @ ''-elacsppa/'') @ rev (LOGROTATE_CONFIG_DIR c)"
    by (simp add: logrotate_path_def)
  then have "take 4 (rev (logrotate_path c app_name))
      = take 4 (rev app_name @ ''-elacsppa/'')"
    by (simp only: take_short length_append length_rev list.size)
  moreover have "set (take 4 (rev app_name @ ''-elacsppa/'')) \<subseteq> set (rev app_name @ ''-elacsppa/'')"
    by (rule set_take_subset)
  moreover have "CHR ''.'' \<notin> set (rev app_name @ ''-elacsppa/'')"
    using valid_name_chars [OF assms] by simp
  ultimately show False using eq by auto
qed

text \<open>
  Claim C1, as the code has it. After \<open>stop_app_instance\<close> has returned with success,
  there are two cases. When \<open>unmonitor\<close> succeeded, the supervisor's configuration file
  of the entry is gone unless its removal failed, Monit was asked to reload,
  \<open>clean_old_sources\<close> has run once more than before, and the log rotation script of
  the project is as it was: only \<open>stop_app\<close> removes it. When \<open>unmonitor\<close> did not
  succeed, it raised ProcessNotFound (Monit answered 404), the stop returned at once,
  no file was removed and \<open>clean_old_sources\<close> has not run.
\<close>

theorem stop_app_instance_success:
  assumes "stop_app_instance c e app_name port w = (Inr (), w')"
  shows "(fst (unmonitor_default (unmonitor_fetch e) (MONIT_LOCATION c)
                 (MONIT_INSTANCE_PREFIX @ app_name @ ''-'' @ str_int port) w) = Inr () \<longrightarrow>
            (monit_config_path c app_name port \<notin> undeletable e
               \<longrightarrow> \<not> exists_file w' (monit_config_path c app_name port))
          \<and> gc_calls w' = gc_calls w @ [CleanOldRevisions (active_revisions c e)]
          \<and> MonitReload \<in> set (trace w')
          \<and> map_of (files w') (logrotate_path c app_name) = map_of (files w) (logrotate_path c app_name))
       \<and> (fst (unmonitor_default (unmonitor_fetch e) (MONIT_LOCATION c)
                 (MONIT_INSTANCE_PREFIX @ app_name @ ''-'' @ str_int port) w) \<noteq> Inr () \<longrightarrow>
            (\<exists>msg. fst (unmonitor_default (unmonitor_fetch e) (MONIT_LOCATION c)
                      (MONIT_INSTANCE_PREFIX @ app_name @ ''-'' @ str_int port) w)
                    = Inl (ProcessNotFound msg))
          \<and> files w' = files w \<and> gc_calls w' = gc_calls w)"
proof -
  define watch where "watch = MONIT_INSTANCE_PREFIX @ app_name @ ''-'' @ str_int port"
  define U where "U = unmonitor_default (unmonitor_fetch e) (MONIT_LOCATION c) watch w"
  define cfg where "cfg = MONIT_CONFIG_DIR c @ ''/appscale-'' @ watch @ ''.cfg''"
  have cfg: "cfg = monit_config_path c app_name port"
    by (simp add: cfg_def watch_def monit_config_path_def)
  have Ueq: "unmonitor_default (unmonitor_fetch e) (MONIT_LOCATION c)
                 (MONIT_INSTANCE_PREFIX @ app_name @ ''-'' @ str_int port) w = U"
    by (simp only: U_def watch_def)
  have valid: "is_app_name_valid app_name"
    using assms by (auto simp: stop_app_instance_def split: if_splits)
  have Uw: "files (snd U) = files w" "gc_calls (snd U) = gc_calls w"
    by (simp_all add: U_def unmonitor_default_world)
  obtain contents pid where pre: "map_of (files w) (os_path_join (PID_DIR c) [watch @ ''.pid'']) = Some contents"
      "py_int (strip contents) = Some pid"
    using assms valid
    by (auto simp: stop_app_instance_def Let_def watch_def split: option.splits)
  have step: "stop_app_instance c e app_name port w =
      (case U of
         (Inl err, w1) \<Rightarrow> (case err of ProcessNotFound msg \<Rightarrow> (Inr (), w1) | _ \<Rightarrow> (Inl err, w1))
       | (Inr u, w1) \<Rightarrow>
           (Inr (), emit (StartThreadKillInstance watch pid)
              (clean_old_sources c e (emit MonitReload
                 (case os_remove e cfg w1 of
                    (Inl err, w2) \<Rightarrow> emit (Log ERROR ''Error deleting {0}'' [cfg]) w2
                  | (Inr u', w2) \<Rightarrow> w2)))))"
    using valid pre unfolding U_def cfg_def watch_def
    by (simp add: stop_app_instance_def Let_def split: prod.split sum.split error.split)
  show ?thesis
  proof (cases U)
    case (Pair r w1)
    with Uw have w1: "files w1 = files w" "gc_calls w1 = gc_calls w" by simp_all
    show ?thesis
    proof (cases r)
      case (Inl err)
      with assms step Pair obtain msg where "err = ProcessNotFound msg" "w' = w1"
        by (cases err) auto
      with Inl Pair w1 show ?thesis
        unfolding Ueq by simp
    next
      case (Inr u)
      define w2 where "w2 = (case os_remove e cfg w1 of
                    (Inl err, w2) \<Rightarrow> emit (Log ERROR ''Error deleting {0}'' [cfg]) w2
                  | (Inr u', w2) \<Rightarrow> w2)"
      have f2: "map_of (files w2) q = (if q = cfg \<and> cfg \<notin> undeletable e then None else map_of (files w) q)" for q
        using os_remove_files [of e cfg w1 q]
        by (cases "os_remove e cfg w1") (auto simp: w2_def emit_def w1 split: sum.splits)
      have g2: "gc_calls w2 = gc_calls w"
        using os_remove_trace [of e cfg w1] w1(2)
        by (cases "os_remove e cfg w1") (auto simp: w2_def emit_def gc_calls_def split: sum.splits)
      from assms step Pair Inr
      have w': "w' = emit (StartThreadKillInstance watch pid)
              (clean_old_sources c e (emit MonitReload w2))"
        by (simp add: w2_def)
      have "files w' = files w2"
        and "gc_calls w' = gc_calls w2 @ [CleanOldRevisions (active_revisions c e)]"
        and "MonitReload \<in> set (trace w')"
        by (simp_all add: w' emit_def clean_old_sources_def gc_calls_def)
      with f2 g2 Inr Pair config_path_not_logrotate_path [OF valid, of c port]
      show ?thesis
        unfolding Ueq by (simp add: exists_file_map_of cfg [symmetric])
    qed
  qed
qed

lemma unmonitor_not_found:
  "fetch i = FetchRaises (HTTPError 404 msg) \<Longrightarrow>
   unmonitor fetch loc name retries i w =
     (Inl (ProcessNotFound (name @ '' not listed by Monit'')),
      emit (HttpPost (loc @ ''/'' @ name) ''action=unmonitor'') w)"
  by (subst unmonitor.simps) simp

lemma str_int_8080: "str_int 8080 = ''8080''"
  by (simp add: str_int_def str_nat.simps digit_char_def)

lemma py_int_4242: "py_int (strip ''4242'') = Some 4242"
  by (simp add: py_int_def strip_def is_space_def is_digit_def digits_val_def digit_val_def)

lemma stop_guestbook:
  "stop_app_instance example_constants example_env ''guestbook'' 8080 running_world =
     (Inr (), snd (stop_app_instance example_constants example_env ''guestbook'' 8080 running_world))"
proof -
  have "fst (stop_app_instance example_constants example_env ''guestbook'' 8080 running_world) = Inr ()"
    by (simp add: stop_app_instance_def is_app_name_valid_def MONIT_INSTANCE_PREFIX_def
        str_int_8080 example_constants_def os_path_join_def path_join2_def startswith_def
        endswith_def running_world_def py_int_4242 unmonitor_default_def unmonitor_ok
        example_env_def Let_def split: prod.split sum.split)
  then show ?thesis by (simp add: prod_eq_iff)
qed

text \<open>
  A running guestbook instance on port 8080 is stopped while Monit answers 200.
\<close>

theorem stop_app_instance_success_witness:
  "\<not> exists_file (snd (stop_app_instance example_constants example_env ''guestbook'' 8080 running_world))
       ''/etc/monit/conf.d/appscale-app___guestbook-8080.cfg''
   \<and> gc_calls (snd (stop_app_instance example_constants example_env ''guestbook'' 8080 running_world))
       = [CleanOldRevisions (active_revisions example_constants example_env)]
   \<and> MonitReload \<in> set (trace (snd (stop_app_instance example_constants example_env ''guestbook'' 8080
                                      running_world)))
   \<and> exists_file (snd (stop_app_instance example_constants example_env ''guestbook'' 8080 running_world))
       ''/etc/logrotate.d/appscale-guestbook''"
proof -
  have u: "fst (unmonitor_default (unmonitor_fetch example_env) (MONIT_LOCATION example_constants)
                 (MONIT_INSTANCE_PREFIX @ ''guestbook'' @ ''-'' @ str_int 8080) running_world) = Inr ()"
    by (simp add: unmonitor_default_def unmonitor_ok example_env_def)
  have p: "monit_config_path example_constants ''guestbook'' 8080
             = ''/etc/monit/conf.d/appscale-app___guestbook-8080.cfg''"
    "logrotate_path example_constants ''guestbook'' = ''/etc/logrotate.d/appscale-guestbook''"
    by (simp_all add: monit_config_path_def logrotate_path_def example_constants_def
        MONIT_INSTANCE_PREFIX_def str_int_8080)
  have d: "monit_config_path example_constants ''guestbook'' 8080 \<notin> undeletable example_env"
    by (simp add: example_env_def)
  have g: "gc_calls running_world = []"
    "map_of (files running_world) ''/etc/logrotate.d/appscale-guestbook'' = Some ''rotate''"
    by (simp_all add: gc_calls_def running_world_def)
  from stop_app_instance_success [OF stop_guestbook] u d
  show ?thesis
    by (simp add: p g exists_file_map_of)
qed

text \<open>
  Claim C1 as stated fails: when Monit answers 404 the stop returns with success, and
  the configuration file and the log rotation script are still there and
  \<open>clean_old_sources\<close> has not run.
\<close>

theorem stop_app_instance_not_listed_counterexample:
  "fst (stop_app_instance example_constants not_listed_env ''guestbook'' 8080 running_world) = Inr ()
   \<and> exists_file (snd (stop_app_instance example_constants not_listed_env ''guestbook'' 8080 running_world))
       ''/etc/monit/conf.d/appscale-app___guestbook-8080.cfg''
   \<and> exists_file (snd (stop_app_instance example_constants not_listed_env ''guestbook'' 8080 running_world))
       ''/etc/logrotate.d/appscale-guestbook''
   \<and> gc_calls (snd (stop_app_instance example_constants not_listed_env ''guestbook'' 8080 running_world))
       = []"
proof -
  have "stop_app_instance example_constants not_listed_env ''guestbook'' 8080 running_world =
     (Inr (), emit (HttpPost ''http://localhost:2812/app___guestbook-8080'' ''action=unmonitor'')
                running_world)"
    by (simp add: stop_app_instance_def is_app_name_valid_def MONIT_INSTANCE_PREFIX_def
        str_int_8080 example_constants_def os_path_join_def path_join2_def startswith_def
        endswith_def running_world_def py_int_4242 unmonitor_default_def
        unmonitor_not_found [of not_listed 0 "''Not Found''"] not_listed_def
        not_listed_env_def example_env_def Let_def)
  then show ?thesis
    by (simp add: emit_def running_world_def exists_file_def gc_calls_def)
qed

subsection \<open>The heap check of a Java start\<close>

text \<open>
  Claim C4. A start of a Java version whose memory limit leaves no heap (the limit minus
  250 is not positive) ends with an error and leaves the files and the calls to the
  supervisor as they were: no configuration file is written and Monit is not asked to
  start anything. When the project identifier is valid and the source is in place, the
  error is the BadConfigurationException of the heap check, which the POST handler
  turns into an HTTPError with code 400.
\<close>

theorem java_heap_rejected_before_supervisor:
  assumes "app_port config = Some port" and "service_id config = Some service"
    and "version_id config = Some version" and "env_vars config = Some vars"
    and "lookup_version (projects_manager e) project_id service version = Some details"
    and "runtime details = JAVA"
    and "runtime_params e = Some params"
    and "max_memory_for c params details - 250 \<le> 0"
  shows "(is_app_name_valid project_id \<and> ensure_source_raises e = None \<longrightarrow>
            fst (start_app c opts e project_id config w)
              = Inl (BadConfigurationException
                       ''Memory for Java applications must be greater than 250MB'')
          \<and> fst (AppHandler_post c opts e project_id (Some config) w)
              = Inl (HTTPError 400 ''Memory for Java applications must be greater than 250MB''))
       \<and> (\<exists>err. fst (start_app c opts e project_id config w) = Inl err)
       \<and> files (snd (start_app c opts e project_id config w)) = files w
       \<and> supervisor_calls (snd (start_app c opts e project_id config w)) = supervisor_calls w"
proof -
  have j: "runtime details \<notin> {PYTHON27, GO, PHP}" "runtime details \<noteq> GO"
    using assms(6) by (simp_all add: JAVA_def PYTHON27_def GO_def PHP_def)
  have s: "start_cmd_and_env c opts e app p (runtime details)
             (max_memory_for c params details) pidfile revision_key vs w1
           = (Inl (BadConfigurationException
                     ''Memory for Java applications must be greater than 250MB''), w1)"
    for app p pidfile revision_key vs w1
    using j assms(6,8) by (simp add: start_cmd_and_env_def)
  show ?thesis
    using assms(1-5,7) j(2)
    by (simp add: start_app_def AppHandler_post_def as_bad_request_def BAD_REQUEST_def s Let_def
        emit_def supervisor_calls_def split: option.split)
qed

text \<open>
  The scenario of the specification: the instance class maps to 128 MB.
\<close>

theorem java_heap_rejected_before_supervisor_witness:
  "fst (start_app example_constants example_options java_small_env ''javaapp'' example_config empty_world)
     = Inl (BadConfigurationException ''Memory for Java applications must be greater than 250MB'')
   \<and> fst (AppHandler_post example_constants example_options java_small_env ''javaapp''
            (Some example_config) empty_world)
     = Inl (HTTPError 400 ''Memory for Java applications must be greater than 250MB'')
   \<and> files (snd (start_app example_constants example_options java_small_env ''javaapp'' example_config
                    empty_world)) = []
   \<and> supervisor_calls (snd (start_app example_constants example_options java_small_env ''javaapp''
                               example_config empty_world)) = []"
proof -
  have c: "app_port example_config = Some 8080" "service_id example_config = Some ''default''"
    "version_id example_config = Some ''v1''" "env_vars example_config = Some []"
    by (simp_all add: example_config_def)
  have l: "lookup_version (projects_manager java_small_env) ''javaapp'' ''default'' ''v1''
             = Some java_details"
    by (simp add: java_small_env_def example_env_def lookup_version_def)
  have r: "runtime java_details = JAVA" by (simp add: java_details_def JAVA_def)
  have p: "runtime_params java_small_env = Some []"
    by (simp add: java_small_env_def example_env_def)
  have m: "max_memory_for example_constants [] java_details - 250 \<le> 0"
    by (simp add: max_memory_for_def java_details_def example_constants_def)
  have v: "is_app_name_valid ''javaapp'' \<and> ensure_source_raises java_small_env = None"
    by (simp add: is_app_name_valid_def java_small_env_def example_env_def)
  have e: "files empty_world = []" "supervisor_calls empty_world = []"
    by (simp_all add: empty_world_def supervisor_calls_def)
  from java_heap_rejected_before_supervisor
         [OF c l r p m, of example_options empty_world] v
  show ?thesis by (simp add: e)
qed

subsection \<open>Log rotation\<close>

lemma guestbook_start_facts:
  "lookup_version (projects_manager guestbook_env) ''guestbook'' ''default'' ''v1'' = Some python_details"
  "lookup_version (projects_manager readonly_logrotate_env) ''guestbook'' ''default'' ''v1''
     = Some python_details"
  "is_app_name_valid ''guestbook''"
  "runtime python_details \<in> {PYTHON27, GO, PHP}"
  "runtime python_details \<noteq> GO"
  by (simp_all add: guestbook_env_def readonly_logrotate_env_def example_env_def lookup_version_def
      is_app_name_valid_def python_details_def PYTHON27_def GO_def)

text \<open>
  Claim C8 at a failing input. The log rotation script of guestbook cannot be opened for
  writing. The start has written the supervisor's configuration, started the Monit
  entry and the routing thread, and then ends with the IOError of \<open>setup_logrotate\<close>:
  nothing is logged and the handler does not answer with success, as it does for the
  same request when the script can be written.
\<close>

theorem start_app_logrotate_unwritable:
  "fst (AppHandler_post example_constants example_options readonly_logrotate_env ''guestbook''
          (Some example_config) empty_world)
     = Inl (IOError ''/etc/logrotate.d/appscale-guestbook'')
   \<and> MonitStart ''app___guestbook-8080'' False
       \<in> set (trace (snd (AppHandler_post example_constants example_options readonly_logrotate_env
                             ''guestbook'' (Some example_config) empty_world)))
   \<and> StartThreadAddRouting ''guestbook'' 8080
       \<in> set (trace (snd (AppHandler_post example_constants example_options readonly_logrotate_env
                             ''guestbook'' (Some example_config) empty_world)))
   \<and> filter is_log (trace (snd (AppHandler_post example_constants example_options
                                   readonly_logrotate_env ''guestbook'' (Some example_config)
                                   empty_world))) = []
   \<and> fst (AppHandler_post example_constants example_options guestbook_env ''guestbook''
            (Some example_config) empty_world) = Inr ()"
proof -
  have a: "setup_logrotate example_constants readonly_logrotate_env ''guestbook'' watch log_size w1
      = (Inl (IOError ''/etc/logrotate.d/appscale-guestbook''), w1)" for watch log_size w1
    by (simp add: setup_logrotate_def write_file_def readonly_logrotate_env_def example_constants_def)
  have b: "setup_logrotate example_constants guestbook_env ''guestbook'' watch log_size w1
      = (Inr True, w1\<lparr>files := AList.update ''/etc/logrotate.d/appscale-guestbook''
                                  (logrotate_contents watch log_size) (files w1)\<rparr>)"
    for watch log_size w1
    by (simp add: setup_logrotate_def write_file_def guestbook_env_def example_env_def
        example_constants_def)
  have e: "runtime_params readonly_logrotate_env = Some []" "runtime_params guestbook_env = Some []"
    "ensure_source_raises readonly_logrotate_env = None" "ensure_source_raises guestbook_env = None"
    "monit_start readonly_logrotate_env" "monit_start guestbook_env"
    by (simp_all add: readonly_logrotate_env_def guestbook_env_def example_env_def)
  have s: "start_cmd_and_env c opts env' app p (runtime python_details) mm pidfile revision_key vs w1
      = (Inr (create_python27_start_cmd c opts app (login_ip opts) p pidfile revision_key,
              AList.merge vs (create_python_app_env c env' (login_ip opts) app)), w1)"
    for c opts env' app p mm pidfile revision_key vs w1
    using guestbook_start_facts(4) by (simp add: start_cmd_and_env_def)
  have r: "start_app example_constants example_options readonly_logrotate_env ''guestbook''
             example_config empty_world
     = (Inl (IOError ''/etc/logrotate.d/appscale-guestbook''),
        emit (StartThreadAddRouting ''guestbook'' 8080)
          (emit (MonitStart ''app___guestbook-8080'' False)
             (create_config_file example_constants ''app___guestbook''
                (create_python27_start_cmd example_constants example_options ''guestbook'' ''10.0.0.1''
                   8080 (pidfile_of ''guestbook'' 8080) ''guestbook_default_v1_1'')
                (pidfile_of ''guestbook'' 8080) 8080
                (AList.merge [] (create_python_app_env example_constants readonly_logrotate_env
                   ''10.0.0.1'' ''guestbook''))
                400 ''10.0.0.1'' True
                (emit (EnsureSource ''guestbook_default_v1_1'' ''/opt/appscale/apps/guestbook.tar.gz''
                         ''python27'') empty_world))))"
    using guestbook_start_facts(5)
    by (simp add: start_app_def example_config_def guestbook_start_facts(2,3) e s a Let_def
        MONIT_INSTANCE_PREFIX_def str_int_8080 max_memory_for_def)
       (simp add: example_constants_def example_options_def python_details_def str_int_def
        str_nat.simps digit_char_def)
  have g: "fst (start_app example_constants example_options guestbook_env ''guestbook''
             example_config empty_world) = Inr ()"
    using guestbook_start_facts(5)
    by (simp add: start_app_def example_config_def guestbook_start_facts(1,3) e s b Let_def)
  have g': "fst (AppHandler_post example_constants example_options guestbook_env ''guestbook''
            (Some example_config) empty_world) = Inr ()"
    using g
    by (cases "start_app example_constants example_options guestbook_env ''guestbook''
             example_config empty_world")
       (simp add: AppHandler_post_def as_bad_request_def)
  have t: "trace empty_world = []" by (simp add: empty_world_def)
  show ?thesis
    by (simp add: g') (simp add: AppHandler_post_def as_bad_request_def r emit_def
        create_config_file_def t)
qed

text \<open>
  The result of \<open>stop_app\<close> does not depend on whether the log rotation script could be
  removed: \<open>remove_logrotate\<close> catches the OSError and returns False.
\<close>

lemma stop_app_result:
  "fst (stop_app c e app_name w) =
     (if \<not> is_app_name_valid app_name
      then Inl (BadConfigurationException (''Invalid project ID: '' @ app_name))
      else if \<not> monit_stop e
      then Inl (HTTPError INTERNAL_ERROR (''Unable to stop '' @ MONIT_INSTANCE_PREFIX @ app_name))
      else Inr ())"
  by (simp add: stop_app_def Let_def split: prod.split)

end
